theory Spec2Isabelle
  imports Complex_Main
begin

section \<open>MultiView: the view coordinator of the event display\<close>

text \<open>
  A shallow embedding of \<^verbatim>\<open>EventVisualisation/View/src/MultiView.cxx\<close>. The coordinator
  object holds pointers to scenes and projection managers that live in the render engine
  (ROOT's TEve), so the engine is an explicit store: scenes and projection managers are
  addressed objects, and the coordinator's arrays hold their addresses. Every member function
  takes the \<open>this\<close> pointer and the process state and returns the new state, or the way the
  process stopped.
\<close>

subsection \<open>Enumerations\<close>

type_synonym addr = nat

text \<open>
  Modelled from the spec: the three enumerations are declared in the header
  \<^verbatim>\<open>EventVisualisationView/MultiView.h\<close>, which is not part of the sources at hand.
  The enumerators are the ones the code names; \<open>EScenes\<close> is in the order the constructor
  relies on (the two scenes of the engine first, then the four spawned ones).
\<close>

datatype EViews = View3d | ViewRphi | ViewZY

datatype EScenes =
  Scene3dGeom | Scene3dEvent | SceneRphiGeom | SceneZYGeom | SceneRphiEvent | SceneZYEvent

datatype EProjections = ProjectionRphi | ProjectionZY

text \<open>The enumerators from \<open>SceneRphiGeom\<close> up to \<open>NumberOfScenes\<close>, in declaration order.\<close>

definition spawnedScenes :: "EScenes list" where
  "spawnedScenes = [SceneRphiGeom, SceneZYGeom, SceneRphiEvent, SceneZYEvent]"

definition allScenes :: "EScenes list" where
  "allScenes = Scene3dGeom # Scene3dEvent # spawnedScenes"

definition allProjections :: "EProjections list" where
  "allProjections = [ProjectionRphi, ProjectionZY]"

subsection \<open>The render engine\<close>

text \<open>
  Modelled from the spec: the render engine (section 6, "Render Engine boundary") is an
  external library. An element is an object with an identity and a name; a pointer to an
  element is an \<open>option\<close>, \<open>None\<close> being the null pointer. A scene is a named container
  of children. A child is either an element added directly, or the projected replica that
  a projection manager made of an element, stamped with the depth that was current at the
  import. A projection manager has a projection kind and a current depth; the depth is a
  \<^verbatim>\<open>Float_t\<close> that the code only stores and never computes with.
\<close>

record TEveElement =
  elementId :: addr
  fName :: string

datatype EPType = kPT_Unknown | kPT_RPhi | kPT_ZY

datatype child =
    Element TEveElement
  | Projected EPType real TEveElement
  | Axes addr

record TEveScene =
  sceneName :: string
  sceneTitle :: string
  fChildren :: "child list"

record TEveProjectionManager =
  fProjType :: EPType
  fCurrentDepth :: real

record TEveViewer =
  viewerName :: string
  viewerScenes :: "addr list"

text \<open>
  The engine state: the scenes, projection managers and viewers by address, each with its
  allocation frontier; the two scenes the engine owns from the start; the current event
  (a container of its own, possibly absent); the number of redraws requested.
\<close>

record RenderEngine =
  fScenes :: "addr \<Rightarrow> TEveScene"
  fNextScene :: addr
  fGlobalScene :: addr
  fEventScene :: addr
  fCurrentEvent :: "child list option"
  fProjections :: "addr \<Rightarrow> TEveProjectionManager"
  fNextProjection :: addr
  fViewers :: "addr \<Rightarrow> TEveViewer"
  fNextViewer :: addr
  fRedraws :: nat

definition SetNameTitle :: "addr \<Rightarrow> string \<Rightarrow> string \<Rightarrow> RenderEngine \<Rightarrow> RenderEngine" where
  "SetNameTitle sc n t e =
     e\<lparr>fScenes := (fScenes e)(sc := (fScenes e sc)\<lparr>sceneName := n, sceneTitle := t\<rparr>)\<rparr>"

definition SpawnNewScene :: "string \<Rightarrow> string \<Rightarrow> RenderEngine \<Rightarrow> addr \<times> RenderEngine" where
  "SpawnNewScene n t e =
     (fNextScene e,
      e\<lparr>fScenes := (fScenes e)(fNextScene e := \<lparr>sceneName = n, sceneTitle = t, fChildren = []\<rparr>),
        fNextScene := Suc (fNextScene e)\<rparr>)"

definition SpawnNewViewer :: "string \<Rightarrow> RenderEngine \<Rightarrow> addr \<times> RenderEngine" where
  "SpawnNewViewer n e =
     (fNextViewer e,
      e\<lparr>fViewers := (fViewers e)(fNextViewer e := \<lparr>viewerName = n, viewerScenes = []\<rparr>),
        fNextViewer := Suc (fNextViewer e)\<rparr>)"

definition AddScene :: "addr \<Rightarrow> addr \<Rightarrow> RenderEngine \<Rightarrow> RenderEngine" where
  "AddScene v sc e =
     e\<lparr>fViewers := (fViewers e)(v := (fViewers e v)\<lparr>viewerScenes := viewerScenes (fViewers e v) @ [sc]\<rparr>)\<rparr>"

definition newProjectionManager :: "RenderEngine \<Rightarrow> addr \<times> RenderEngine" where
  "newProjectionManager e =
     (fNextProjection e,
      e\<lparr>fProjections := (fProjections e)(fNextProjection e := \<lparr>fProjType = kPT_Unknown, fCurrentDepth = 0\<rparr>),
        fNextProjection := Suc (fNextProjection e)\<rparr>)"

definition SetProjection :: "addr \<Rightarrow> EPType \<Rightarrow> RenderEngine \<Rightarrow> RenderEngine" where
  "SetProjection pm t e =
     e\<lparr>fProjections := (fProjections e)(pm := (fProjections e pm)\<lparr>fProjType := t\<rparr>)\<rparr>"

definition SetCurrentDepth :: "addr \<Rightarrow> real \<Rightarrow> RenderEngine \<Rightarrow> RenderEngine" where
  "SetCurrentDepth pm d e =
     e\<lparr>fProjections := (fProjections e)(pm := (fProjections e pm)\<lparr>fCurrentDepth := d\<rparr>)\<rparr>"

definition addChild :: "child \<Rightarrow> addr \<Rightarrow> RenderEngine \<Rightarrow> RenderEngine" where
  "addChild c sc e =
     e\<lparr>fScenes := (fScenes e)(sc := (fScenes e sc)\<lparr>fChildren := fChildren (fScenes e sc) @ [c]\<rparr>)\<rparr>"

definition removeChild :: "child \<Rightarrow> addr \<Rightarrow> RenderEngine \<Rightarrow> RenderEngine" where
  "removeChild c sc e =
     e\<lparr>fScenes := (fScenes e)(sc := (fScenes e sc)\<lparr>fChildren := removeAll c (fChildren (fScenes e sc))\<rparr>)\<rparr>"

definition AddElement :: "TEveElement \<Rightarrow> addr \<Rightarrow> RenderEngine \<Rightarrow> RenderEngine" where
  "AddElement el sc e = addChild (Element el) sc e"

definition ImportElements :: "addr \<Rightarrow> TEveElement \<Rightarrow> addr \<Rightarrow> RenderEngine \<Rightarrow> RenderEngine" where
  "ImportElements pm el sc e =
     addChild (Projected (fProjType (fProjections e pm)) (fCurrentDepth (fProjections e pm)) el) sc e"

definition DestroyElements :: "addr \<Rightarrow> RenderEngine \<Rightarrow> RenderEngine" where
  "DestroyElements sc e = e\<lparr>fScenes := (fScenes e)(sc := (fScenes e sc)\<lparr>fChildren := []\<rparr>)\<rparr>"

definition Redraw3D :: "RenderEngine \<Rightarrow> RenderEngine" where
  "Redraw3D e = e\<lparr>fRedraws := Suc (fRedraws e)\<rparr>"

subsection \<open>The coordinator object and the process\<close>

record MultiView =
  mSceneNames :: "EScenes \<Rightarrow> string"
  mSceneDescriptions :: "EScenes \<Rightarrow> string"
  mScenes :: "EScenes \<Rightarrow> addr"
  mViews :: "EViews \<Rightarrow> addr"
  mProjections :: "EProjections \<Rightarrow> addr"
  mDetectors :: "TEveElement option list"

datatype severity = error | warning | info

text \<open>
  The process: the static pointer \<open>sInstance\<close>, the coordinator objects made by
  \<^verbatim>\<open>new MultiView()\<close> (the address of an object is its index), the engine, the log,
  and the number of requests made to the geometry manager so far.
\<close>

record process =
  sInstance :: "addr option"
  objects :: "MultiView list"
  gEve :: RenderEngine
  fairlog :: "(severity \<times> string) list"
  geometryRequests :: nat

text \<open>
  How a call can stop other than by returning: \<^verbatim>\<open>exit\<close> with a status, in the state the
  process had then, or the dereference of a null or invalid pointer.
\<close>

datatype fault = Exited int process | Segfault

definition LOG :: "severity \<Rightarrow> string \<Rightarrow> process \<Rightarrow> process" where
  "LOG sev msg p = p\<lparr>fairlog := fairlog p @ [(sev, msg)]\<rparr>"

definition deref :: "process \<Rightarrow> addr \<Rightarrow> MultiView option" where
  "deref p this = (if this < length (objects p) then Some (objects p ! this) else None)"

definition getScene :: "MultiView \<Rightarrow> EScenes \<Rightarrow> addr" where
  "getScene mv scene = mScenes mv scene"

definition getProjection :: "MultiView \<Rightarrow> EProjections \<Rightarrow> addr" where
  "getProjection mv projection = mProjections mv projection"

fun getSceneOfProjection :: "EProjections \<Rightarrow> EScenes" where
  "getSceneOfProjection ProjectionRphi = SceneRphiGeom"
| "getSceneOfProjection ProjectionZY = SceneZYGeom"

subsection \<open>Geometry registration\<close>

definition registerGeometry ::
  "addr \<Rightarrow> TEveElement option \<Rightarrow> bool \<Rightarrow> bool \<Rightarrow> bool \<Rightarrow> process \<Rightarrow> fault + process" where
  "registerGeometry this geom threeD rPhi zy p =
     (case geom of
        None \<Rightarrow> Inl (Exited (- 1) (LOG error ''MultiView::registerGeometry -- geometry is NULL!'' p))
      | Some g \<Rightarrow>
          (case deref p this of
             None \<Rightarrow> Inl Segfault
           | Some mv \<Rightarrow>
               let e1 = (if threeD then AddElement g (getScene mv Scene3dGeom) (gEve p) else gEve p);
                   e2 = (if rPhi then
                           let projection = getProjection mv ProjectionRphi;
                               a = SetCurrentDepth projection (- 10) e1;
                               b = ImportElements projection g (getScene mv SceneRphiGeom) a
                           in SetCurrentDepth projection 0 b
                         else e1);
                   e3 = (if zy then
                           let projection = getProjection mv ProjectionZY;
                               a = SetCurrentDepth projection (- 10) e2;
                               b = ImportElements projection g (getScene mv SceneZYGeom) a
                           in SetCurrentDepth projection 0 b
                         else e2)
               in Inr (p\<lparr>gEve := e3\<rparr>)))"

text \<open>
  The geometry provider (\<^verbatim>\<open>GeometryManager::getGeometryForDetector\<close>) is an external
  collaborator, and what it answers may differ from one request to the next (it can build
  a new shape each time). It is the parameter \<open>provider\<close>: from the number of requests
  made before and the detector name to a shape pointer.
\<close>

definition requested :: "process \<Rightarrow> process" where
  "requested p = p\<lparr>geometryRequests := Suc (geometryRequests p)\<rparr>"

text \<open>
  \<open>mDetectors.push_back(shape)\<close> on the object at \<open>this\<close>; it is reached only after
  \<open>registerGeometry\<close> has returned, so with a valid \<open>this\<close>.
\<close>

definition push_back :: "addr \<Rightarrow> TEveElement option \<Rightarrow> process \<Rightarrow> process" where
  "push_back this shape p =
     p\<lparr>objects := (objects p)[this := (objects p ! this)\<lparr>mDetectors := mDetectors (objects p ! this) @ [shape]\<rparr>]\<rparr>"

type_synonym provider = "nat \<Rightarrow> string \<Rightarrow> TEveElement option"

definition drawGeometryForDetector ::
  "provider \<Rightarrow> addr \<Rightarrow> string \<Rightarrow> bool \<Rightarrow> bool \<Rightarrow> bool \<Rightarrow> process \<Rightarrow> fault + process" where
  "drawGeometryForDetector provider this detectorName threeD rPhi zy p =
     (let shape = provider (geometryRequests p) detectorName
      in case registerGeometry this shape threeD rPhi zy (requested p) of
           Inl f \<Rightarrow> Inl f
         | Inr p' \<Rightarrow> Inr (push_back this shape p'))"

subsection \<open>Lookup and teardown of geometries\<close>

text \<open>The range-for over \<open>mDetectors\<close>; \<open>geom->GetElementName()\<close> on a null entry is a fault.\<close>

fun scanDetectors :: "string \<Rightarrow> TEveElement option list \<Rightarrow> fault + TEveElement option" where
  "scanDetectors detectorName [] = Inr None"
| "scanDetectors detectorName (geom # rest) =
     (case geom of
        None \<Rightarrow> Inl Segfault
      | Some g \<Rightarrow> if fName g = detectorName then Inr geom else scanDetectors detectorName rest)"

definition getDetectorGeometry :: "addr \<Rightarrow> string \<Rightarrow> process \<Rightarrow> fault + TEveElement option" where
  "getDetectorGeometry this detectorName p =
     (case deref p this of
        None \<Rightarrow> Inl Segfault
      | Some mv \<Rightarrow> scanDetectors detectorName (mDetectors mv))"

definition clearDetectors :: "addr \<Rightarrow> process \<Rightarrow> process" where
  "clearDetectors this p = p\<lparr>objects := (objects p)[this := (objects p ! this)\<lparr>mDetectors := []\<rparr>]\<rparr>"

definition destroyAllGeometries :: "addr \<Rightarrow> process \<Rightarrow> fault + process" where
  "destroyAllGeometries this p =
     (case deref p this of
        None \<Rightarrow> Inl Segfault
      | Some mv \<Rightarrow>
          let e1 = DestroyElements (getScene mv Scene3dGeom) (gEve p);
              e2 = DestroyElements (getScene mv SceneRphiGeom) e1;
              e3 = DestroyElements (getScene mv SceneZYGeom) e2
          in Inr (clearDetectors this (p\<lparr>gEve := e3\<rparr>)))"

subsection \<open>Event content\<close>

text \<open>
  \<open>gEve->GetCurrentEvent()->AddElement(event)\<close>: a fault when there is no current event.
  The element has been checked by the caller of this function.
\<close>

definition addToCurrentEvent :: "TEveElement \<Rightarrow> RenderEngine \<Rightarrow> fault + RenderEngine" where
  "addToCurrentEvent event e =
     (case fCurrentEvent e of
        None \<Rightarrow> Inl Segfault
      | Some cs \<Rightarrow> Inr (e\<lparr>fCurrentEvent := Some (cs @ [Element event])\<rparr>))"

text \<open>
  The two loops of \<open>registerElements\<close>, from the index \<open>dataType\<close> on. The arrays are
  lists of element pointers; reading a slot the array does not have, and handing a null
  element to the engine, are faults. \<open>NdataTypes\<close> comes from a header that is not part
  of the sources at hand and is a parameter.
\<close>

function registerElements_default ::
  "nat \<Rightarrow> MultiView \<Rightarrow> TEveElement option list \<Rightarrow> nat \<Rightarrow> RenderEngine \<Rightarrow> fault + RenderEngine" where
  "registerElements_default NdataTypes mv elements dataType e =
     (if dataType < NdataTypes then
        (if dataType < length elements then
           (case elements ! dataType of
              None \<Rightarrow> Inl Segfault
            | Some event \<Rightarrow>
                (case addToCurrentEvent event e of
                   Inl f \<Rightarrow> Inl f
                 | Inr e1 \<Rightarrow>
                     registerElements_default NdataTypes mv elements (Suc dataType)
                       (ImportElements (getProjection mv ProjectionZY) event (getScene mv SceneZYEvent) e1)))
         else Inl Segfault)
      else Inr e)"
  by pat_completeness auto
termination
  by (relation "measure (\<lambda>(n, mv, els, i, e). n - i)") auto

function registerElements_phi ::
  "nat \<Rightarrow> MultiView \<Rightarrow> TEveElement option list \<Rightarrow> nat \<Rightarrow> RenderEngine \<Rightarrow> fault + RenderEngine" where
  "registerElements_phi NdataTypes mv phiElements dataType e =
     (if dataType < NdataTypes then
        (if dataType < length phiElements then
           (case phiElements ! dataType of
              None \<Rightarrow> Inl Segfault
            | Some event \<Rightarrow>
                registerElements_phi NdataTypes mv phiElements (Suc dataType)
                  (ImportElements (getProjection mv ProjectionRphi) event (getScene mv SceneRphiEvent) e))
         else Inl Segfault)
      else Inr e)"
  by pat_completeness auto
termination
  by (relation "measure (\<lambda>(n, mv, els, i, e). n - i)") auto

declare registerElements_default.simps [simp del]

declare registerElements_phi.simps [simp del]

definition registerElements ::
  "nat \<Rightarrow> addr \<Rightarrow> TEveElement option list \<Rightarrow> TEveElement option list \<Rightarrow> process \<Rightarrow> fault + process" where
  "registerElements NdataTypes this elements phiElements p =
     (case deref p this of
        None \<Rightarrow> Inl Segfault
      | Some mv \<Rightarrow>
          (case registerElements_default NdataTypes mv elements 0 (gEve p) of
             Inl f \<Rightarrow> Inl f
           | Inr e1 \<Rightarrow>
               (case registerElements_phi NdataTypes mv phiElements 0 e1 of
                  Inl f \<Rightarrow> Inl f
                | Inr e2 \<Rightarrow> Inr (p\<lparr>gEve := e2\<rparr>))))"

definition registerElement :: "addr \<Rightarrow> TEveElement option \<Rightarrow> process \<Rightarrow> fault + process" where
  "registerElement this event p =
     (case event of
        None \<Rightarrow> Inl Segfault
      | Some ev \<Rightarrow>
          (case addToCurrentEvent ev (gEve p) of
             Inl f \<Rightarrow> Inl f
           | Inr e1 \<Rightarrow>
               (case deref p this of
                  None \<Rightarrow> Inl Segfault
                | Some mv \<Rightarrow>
                    let e2 = ImportElements (getProjection mv ProjectionRphi) ev (getScene mv SceneRphiEvent) e1;
                        e3 = ImportElements (getProjection mv ProjectionZY) ev (getScene mv SceneZYEvent) e2
                    in Inr (p\<lparr>gEve := e3\<rparr>))))"

definition RemoveElements :: "RenderEngine \<Rightarrow> RenderEngine" where
  "RemoveElements e = e\<lparr>fCurrentEvent := map_option (\<lambda>cs. []) (fCurrentEvent e)\<rparr>"

definition destroyAllEvents :: "addr \<Rightarrow> process \<Rightarrow> fault + process" where
  "destroyAllEvents this p =
     (let e1 = (if fCurrentEvent (gEve p) \<noteq> None then RemoveElements (gEve p) else gEve p)
      in case deref p this of
           None \<Rightarrow> Inl Segfault
         | Some mv \<Rightarrow>
             let e2 = DestroyElements (getScene mv SceneRphiEvent) e1;
                 e3 = DestroyElements (getScene mv SceneZYEvent) e2
             in Inr (p\<lparr>gEve := e3\<rparr>))"

definition redraw3D :: "addr \<Rightarrow> process \<Rightarrow> fault + process" where
  "redraw3D this p = Inr (p\<lparr>gEve := Redraw3D (gEve p)\<rparr>)"

subsection \<open>Construction and the singleton\<close>

fun sceneNames :: "EScenes \<Rightarrow> string" where
  "sceneNames Scene3dGeom = ''3D Geometry Scene''"
| "sceneNames SceneRphiGeom = ''R-Phi Geometry Scene''"
| "sceneNames SceneZYGeom = ''Z-Y Geometry Scene''"
| "sceneNames Scene3dEvent = ''3D Event Scene''"
| "sceneNames SceneRphiEvent = ''R-Phi Event Scene''"
| "sceneNames SceneZYEvent = ''Z-Y Event Scene''"

fun sceneDescriptions :: "EScenes \<Rightarrow> string" where
  "sceneDescriptions Scene3dGeom = ''Scene holding 3D geometry.''"
| "sceneDescriptions SceneRphiGeom = ''Scene holding projected geometry for the R-Phi view.''"
| "sceneDescriptions SceneZYGeom = ''Scene holding projected geometry for the Z-Y view.''"
| "sceneDescriptions Scene3dEvent = ''Scene holding 3D event.''"
| "sceneDescriptions SceneRphiEvent = ''Scene holding projected event for the R-Phi view.''"
| "sceneDescriptions SceneZYEvent = ''Scene holding projected event for the Z-Y view.''"

text \<open>The loop that spawns the scenes from \<open>SceneRphiGeom\<close> on.\<close>

fun spawnScenes :: "EScenes list \<Rightarrow> MultiView \<times> RenderEngine \<Rightarrow> MultiView \<times> RenderEngine" where
  "spawnScenes [] me = me"
| "spawnScenes (i # rest) (mv, e) =
     (let (sc, e1) = SpawnNewScene (mSceneNames mv i) (mSceneDescriptions mv i) e
      in spawnScenes rest (mv\<lparr>mScenes := (mScenes mv)(i := sc)\<rparr>, e1))"

text \<open>
  The loop over the projections when axes are shown. The axes object is a local of the loop
  body: it is added to the scene of the projection and, as an element that is destroyed at
  the end of the iteration, taken out of its parent again.
\<close>

fun addAxes :: "EProjections list \<Rightarrow> MultiView \<Rightarrow> RenderEngine \<Rightarrow> RenderEngine" where
  "addAxes [] mv e = e"
| "addAxes (i # rest) mv e =
     (let axes = Axes (mProjections mv i);
          sc = mScenes mv (getSceneOfProjection i);
          e1 = addChild axes sc e;
          e2 = removeChild axes sc e1
      in addAxes rest mv e2)"

text \<open>
  \<open>setupMultiview\<close>: the three viewers and the scenes each one shows. The window packs,
  the cameras and the two annotations are layout of the engine's windows and carry no state
  that any other function of the file reads.
\<close>

definition setupMultiview :: "MultiView \<times> RenderEngine \<Rightarrow> MultiView \<times> RenderEngine" where
  "setupMultiview me =
     (let (mv, e) = me;
          (v3d, e1) = SpawnNewViewer ''3D View'' e;
          mv1 = mv\<lparr>mViews := (mViews mv)(View3d := v3d)\<rparr>;
          e2 = AddScene v3d (mScenes mv1 Scene3dGeom) e1;
          e3 = AddScene v3d (mScenes mv1 Scene3dEvent) e2;
          (vrphi, e4) = SpawnNewViewer ''R-Phi View'' e3;
          mv2 = mv1\<lparr>mViews := (mViews mv1)(ViewRphi := vrphi)\<rparr>;
          e5 = AddScene vrphi (mScenes mv2 SceneRphiGeom) e4;
          e6 = AddScene vrphi (mScenes mv2 SceneRphiEvent) e5;
          (vzy, e7) = SpawnNewViewer ''Z-Y View'' e6;
          mv3 = mv2\<lparr>mViews := (mViews mv2)(ViewZY := vzy)\<rparr>;
          e8 = AddScene vzy (mScenes mv3 SceneZYGeom) e7;
          e9 = AddScene vzy (mScenes mv3 SceneZYEvent) e8
      in (mv3, e9))"

text \<open>
  The constructor in the blocks its comments mark. First the names and the scenes: the two
  scenes of the engine, then the spawned ones.
\<close>

definition ctor_scenes :: "MultiView \<times> RenderEngine \<Rightarrow> MultiView \<times> RenderEngine" where
  "ctor_scenes me =
     (let (mv, e) = me;
          mv0 = mv\<lparr>mSceneNames := sceneNames, mSceneDescriptions := sceneDescriptions\<rparr>;
          mv1 = mv0\<lparr>mScenes := (mScenes mv0)(Scene3dGeom := fGlobalScene e)\<rparr>;
          e1 = SetNameTitle (mScenes mv1 Scene3dGeom) (mSceneNames mv1 Scene3dGeom)
                 (mSceneDescriptions mv1 Scene3dGeom) e;
          mv2 = mv1\<lparr>mScenes := (mScenes mv1)(Scene3dEvent := fEventScene e1)\<rparr>;
          e2 = SetNameTitle (mScenes mv2 Scene3dEvent) (mSceneNames mv2 Scene3dEvent)
                 (mSceneDescriptions mv2 Scene3dEvent) e1
      in spawnScenes spawnedScenes (mv2, e2))"

definition ctor_projections :: "MultiView \<times> RenderEngine \<Rightarrow> MultiView \<times> RenderEngine" where
  "ctor_projections me =
     (let (mv, e) = me;
          (prphi, e1) = newProjectionManager e;
          mv1 = mv\<lparr>mProjections := (mProjections mv)(ProjectionRphi := prphi)\<rparr>;
          (pzy, e2) = newProjectionManager e1;
          mv2 = mv1\<lparr>mProjections := (mProjections mv1)(ProjectionZY := pzy)\<rparr>;
          e3 = SetProjection (mProjections mv2 ProjectionRphi) kPT_RPhi e2;
          e4 = SetProjection (mProjections mv2 ProjectionZY) kPT_ZY e3
      in (mv2, e4))"

definition ctor_axes :: "bool \<Rightarrow> MultiView \<times> RenderEngine \<Rightarrow> MultiView \<times> RenderEngine" where
  "ctor_axes showAxes me =
     (let (mv, e) = me
      in if showAxes then (mv, addAxes allProjections mv e) else (mv, e))"

text \<open>
  The constructor, as \<^verbatim>\<open>new MultiView()\<close> runs it: the object gets the next address, its
  arrays are filled slot by slot (every slot is written before it is read, so what the
  fresh object holds does not matter; the vector starts empty), and the last statement
  stores \<open>this\<close> in \<open>sInstance\<close>. Whether axes are shown comes from the configuration,
  a parameter here.
\<close>

definition freshMultiView :: MultiView where
  "freshMultiView =
     \<lparr>mSceneNames = (\<lambda>_. []), mSceneDescriptions = (\<lambda>_. []),
      mScenes = (\<lambda>_. 0), mViews = (\<lambda>_. 0), mProjections = (\<lambda>_. 0), mDetectors = []\<rparr>"

definition MultiView_ctor :: "bool \<Rightarrow> process \<Rightarrow> process" where
  "MultiView_ctor showAxes p =
     (let this = length (objects p);
          (mv, e) = setupMultiview (ctor_axes showAxes (ctor_projections (ctor_scenes (freshMultiView, gEve p))))
      in p\<lparr>objects := objects p @ [mv], gEve := e, sInstance := Some this\<rparr>)"

definition MultiView_dtor :: "addr \<Rightarrow> process \<Rightarrow> fault + process" where
  "MultiView_dtor this p = destroyAllGeometries this p"

definition getInstance :: "bool \<Rightarrow> process \<Rightarrow> addr option \<times> process" where
  "getInstance showAxes p =
     (let p1 = (if sInstance p = None then MultiView_ctor showAxes p else p)
      in (sInstance p1, p1))"

subsection \<open>Sequences of calls\<close>

text \<open>
  What a caller can ask of the coordinator, and a run of such calls on one object, stopping
  at the first call that does not return.
\<close>

datatype call =
    Instance
  | Draw string bool bool bool
  | Register "TEveElement option" bool bool bool
  | Lookup string
  | DestroyGeometries
  | RegisterEvents "TEveElement option list" "TEveElement option list"
  | RegisterEvent "TEveElement option"
  | DestroyEvents
  | Redraw

fun perform ::
  "bool \<Rightarrow> provider \<Rightarrow> nat \<Rightarrow> addr \<Rightarrow> call \<Rightarrow> process \<Rightarrow> fault + process" where
  "perform ax pr n this Instance p = Inr (snd (getInstance ax p))"
| "perform ax pr n this (Draw name threeD rPhi zy) p = drawGeometryForDetector pr this name threeD rPhi zy p"
| "perform ax pr n this (Register geom threeD rPhi zy) p = registerGeometry this geom threeD rPhi zy p"
| "perform ax pr n this (Lookup name) p =
     (case getDetectorGeometry this name p of Inl f \<Rightarrow> Inl f | Inr g \<Rightarrow> Inr p)"
| "perform ax pr n this DestroyGeometries p = destroyAllGeometries this p"
| "perform ax pr n this (RegisterEvents els phis) p = registerElements n this els phis p"
| "perform ax pr n this (RegisterEvent ev) p = registerElement this ev p"
| "perform ax pr n this DestroyEvents p = destroyAllEvents this p"
| "perform ax pr n this Redraw p = redraw3D this p"

fun performAll ::
  "bool \<Rightarrow> provider \<Rightarrow> nat \<Rightarrow> addr \<Rightarrow> call list \<Rightarrow> process \<Rightarrow> fault + process" where
  "performAll ax pr n this [] p = Inr p"
| "performAll ax pr n this (c # cs) p =
     (case perform ax pr n this c p of
        Inl f \<Rightarrow> Inl f
      | Inr p1 \<Rightarrow> performAll ax pr n this cs p1)"

fun isDraw :: "call \<Rightarrow> bool" where
  "isDraw (Draw name threeD rPhi zy) = True"
| "isDraw c = False"

text \<open>
  The registrations in force after a run that started with the lookup list \<open>acc\<close> and
  after \<open>k\<close> requests to the provider: the shapes that the \<open>Draw\<close> calls resolved since the
  last \<open>DestroyGeometries\<close>, in the order of the calls.
\<close>

fun registrations :: "provider \<Rightarrow> nat \<Rightarrow> call list \<Rightarrow> TEveElement option list \<Rightarrow> TEveElement option list" where
  "registrations pr k [] acc = acc"
| "registrations pr k (Draw name threeD rPhi zy # cs) acc = registrations pr (Suc k) cs (acc @ [pr k name])"
| "registrations pr k (DestroyGeometries # cs) acc = registrations pr k cs []"
| "registrations pr k (c # cs) acc = registrations pr k cs acc"

text \<open>
  Runs that return on a valid coordinator whose lookup list holds no null pointer: those
  without the registration of a null or unresolved shape and without the registration of
  event content (which also needs a current event and arrays that are long enough).
\<close>

fun allReturning :: "provider \<Rightarrow> nat \<Rightarrow> call list \<Rightarrow> bool" where
  "allReturning pr k [] = True"
| "allReturning pr k (Draw name threeD rPhi zy # cs) = (pr k name \<noteq> None \<and> allReturning pr (Suc k) cs)"
| "allReturning pr k (Register geom threeD rPhi zy # cs) = (geom \<noteq> None \<and> allReturning pr k cs)"
| "allReturning pr k (RegisterEvents els phis # cs) = False"
| "allReturning pr k (RegisterEvent ev # cs) = False"
| "allReturning pr k (c # cs) = allReturning pr k cs"

text \<open>Whether a shape pointer is a shape of the given name.\<close>

fun named :: "string \<Rightarrow> TEveElement option \<Rightarrow> bool" where
  "named detectorName None = False"
| "named detectorName (Some g) = (fName g = detectorName)"

text \<open>
  A process as it starts: no coordinator yet, and an engine with its two scenes, no
  projection manager and no viewer.
\<close>

definition bootEngine :: RenderEngine where
  "bootEngine =
     \<lparr>fScenes = (\<lambda>_. \<lparr>sceneName = [], sceneTitle = [], fChildren = []\<rparr>),
      fNextScene = 2, fGlobalScene = 0, fEventScene = 1, fCurrentEvent = Some [],
      fProjections = (\<lambda>_. \<lparr>fProjType = kPT_Unknown, fCurrentDepth = 0\<rparr>), fNextProjection = 0,
      fViewers = (\<lambda>_. \<lparr>viewerName = [], viewerScenes = []\<rparr>), fNextViewer = 0,
      fRedraws = 0\<rparr>"

definition boot :: process where
  "boot = \<lparr>sInstance = None, objects = [], gEve = bootEngine, fairlog = [], geometryRequests = 0\<rparr>"

text \<open>
  The wiring that the constructor sets up and that no function of the file changes: the six
  scene slots hold six different scenes, the two projection slots two different managers,
  each of the kind of its slot.
\<close>

definition wired :: "MultiView \<Rightarrow> RenderEngine \<Rightarrow> bool" where
  "wired mv e \<longleftrightarrow>
     distinct (map (mScenes mv) allScenes) \<and>
     mProjections mv ProjectionRphi \<noteq> mProjections mv ProjectionZY \<and>
     fProjType (fProjections e (mProjections mv ProjectionRphi)) = kPT_RPhi \<and>
     fProjType (fProjections e (mProjections mv ProjectionZY)) = kPT_ZY"

text \<open>The children of the scene in a slot, and the depth of the projection in a slot.\<close>

definition sceneChildren :: "MultiView \<Rightarrow> process \<Rightarrow> EScenes \<Rightarrow> child list" where
  "sceneChildren mv p scene = fChildren (fScenes (gEve p) (getScene mv scene))"

definition projectionDepth :: "MultiView \<Rightarrow> process \<Rightarrow> EProjections \<Rightarrow> real" where
  "projectionDepth mv p projection = fCurrentDepth (fProjections (gEve p) (getProjection mv projection))"

text \<open>The depth of a projection after a call, when the call returned.\<close>

fun depthAfter :: "MultiView \<Rightarrow> EProjections \<Rightarrow> fault + process \<Rightarrow> real option" where
  "depthAfter mv projection (Inl f) = None"
| "depthAfter mv projection (Inr p) = Some (projectionDepth mv p projection)"

text \<open>
  What the constructor needs of the engine it finds: the global scene and the event scene are
  two allocated scenes.
\<close>

definition engine_ok :: "RenderEngine \<Rightarrow> bool" where
  "engine_ok e \<longleftrightarrow>
     fGlobalScene e \<noteq> fEventScene e \<and> fGlobalScene e < fNextScene e \<and> fEventScene e < fNextScene e"

subsection \<open>Example states\<close>

text \<open>
  The process after the first \<open>getInstance\<close>, its coordinator (at address 0), the same
  process after a caller has set the depth of the R-Phi projection to 5 through
  \<open>getProjection\<close>, the same process without a current event, and a geometry provider
  that knows two detectors and builds a new shape at each request, with the first three
  shapes it builds when asked for TPC, ITS and TPC in turn.
\<close>

definition demo :: process where
  "demo = snd (getInstance False boot)"

definition demoView :: MultiView where
  "demoView = objects demo ! 0"

definition demo5 :: process where
  "demo5 = demo\<lparr>gEve := SetCurrentDepth (getProjection demoView ProjectionRphi) 5 (gEve demo)\<rparr>"

definition demoNoEvent :: process where
  "demoNoEvent = demo\<lparr>gEve := (gEve demo)\<lparr>fCurrentEvent := None\<rparr>\<rparr>"

definition tpc :: TEveElement where
  "tpc = \<lparr>elementId = 100, fName = ''TPC''\<rparr>"

definition its :: TEveElement where
  "its = \<lparr>elementId = 101, fName = ''ITS''\<rparr>"

definition tpc2 :: TEveElement where
  "tpc2 = \<lparr>elementId = 102, fName = ''TPC''\<rparr>"

definition stubProvider :: provider where
  "stubProvider k detectorName =
     (if detectorName = ''TPC'' \<or> detectorName = ''ITS''
      then Some \<lparr>elementId = 100 + k, fName = detectorName\<rparr>
      else None)"

section \<open>Properties\<close>

subsection \<open>The engine operations, field by field\<close>

lemma addChild_simps:
  "fChildren (fScenes (addChild c sc e) s) =
     (if s = sc then fChildren (fScenes e sc) @ [c] else fChildren (fScenes e s))"
  "fProjections (addChild c sc e) = fProjections e"
  "fCurrentEvent (addChild c sc e) = fCurrentEvent e"
  by (simp_all add: addChild_def)

lemma AddElement_simps:
  "fChildren (fScenes (AddElement el sc e) s) =
     (if s = sc then fChildren (fScenes e sc) @ [Element el] else fChildren (fScenes e s))"
  "fProjections (AddElement el sc e) = fProjections e"
  "fCurrentEvent (AddElement el sc e) = fCurrentEvent e"
  by (simp_all add: AddElement_def addChild_simps)

lemma ImportElements_simps:
  "fChildren (fScenes (ImportElements pm el sc e) s) =
     (if s = sc
      then fChildren (fScenes e sc) @
             [Projected (fProjType (fProjections e pm)) (fCurrentDepth (fProjections e pm)) el]
      else fChildren (fScenes e s))"
  "fProjections (ImportElements pm el sc e) = fProjections e"
  "fCurrentEvent (ImportElements pm el sc e) = fCurrentEvent e"
  by (simp_all add: ImportElements_def addChild_simps)

lemma SetCurrentDepth_simps:
  "fScenes (SetCurrentDepth pm d e) = fScenes e"
  "fCurrentDepth (fProjections (SetCurrentDepth pm d e) q) =
     (if q = pm then d else fCurrentDepth (fProjections e q))"
  "fProjType (fProjections (SetCurrentDepth pm d e) q) = fProjType (fProjections e q)"
  "fCurrentEvent (SetCurrentDepth pm d e) = fCurrentEvent e"
  by (simp_all add: SetCurrentDepth_def)

lemma DestroyElements_simps:
  "fChildren (fScenes (DestroyElements sc e) s) = (if s = sc then [] else fChildren (fScenes e s))"
  "fProjections (DestroyElements sc e) = fProjections e"
  "fCurrentEvent (DestroyElements sc e) = fCurrentEvent e"
  by (simp_all add: DestroyElements_def)

lemma RemoveElements_simps:
  "fScenes (RemoveElements e) = fScenes e"
  "fProjections (RemoveElements e) = fProjections e"
  "fCurrentEvent (RemoveElements e) = map_option (\<lambda>cs. []) (fCurrentEvent e)"
  by (simp_all add: RemoveElements_def)

lemmas engine_simps =
  AddElement_simps ImportElements_simps SetCurrentDepth_simps DestroyElements_simps
  RemoveElements_simps

subsection \<open>The wiring\<close>

lemma in_allScenes: "s \<in> set allScenes"
  by (cases s) (simp_all add: allScenes_def spawnedScenes_def)

lemma wired_scenes:
  assumes "wired mv e"
  shows "(mScenes mv a = mScenes mv b) = (a = b)"
proof -
  from assms have "inj_on (mScenes mv) (set allScenes)"
    by (simp add: wired_def distinct_map)
  then show ?thesis
    using in_allScenes [of a] in_allScenes [of b] by (auto dest: inj_onD)
qed

lemma wired_projections:
  assumes "wired mv e"
  shows "(mProjections mv a = mProjections mv b) = (a = b)"
  using assms by (cases a; cases b) (auto simp: wired_def)

lemma wired_kinds:
  assumes "wired mv e"
  shows "fProjType (fProjections e (mProjections mv ProjectionRphi)) = kPT_RPhi"
    and "fProjType (fProjections e (mProjections mv ProjectionZY)) = kPT_ZY"
  using assms by (simp_all add: wired_def)

lemma wired_cong:
  assumes "wired mv e"
    and "\<And>q. fProjType (fProjections e' q) = fProjType (fProjections e q)"
    and "mScenes mv' = mScenes mv" and "mProjections mv' = mProjections mv"
  shows "wired mv' e'"
  using assms by (simp add: wired_def)

subsection \<open>Geometry registration, call by call\<close>

lemma registerGeometry_null:
  "registerGeometry this None threeD rPhi zy p =
     Inl (Exited (- 1) (LOG error ''MultiView::registerGeometry -- geometry is NULL!'' p))"
  by (simp add: registerGeometry_def)

lemma LOG_simps:
  "gEve (LOG sev msg p) = gEve p"
  "objects (LOG sev msg p) = objects p"
  "sInstance (LOG sev msg p) = sInstance p"
  "fairlog (LOG sev msg p) = fairlog p @ [(sev, msg)]"
  "geometryRequests (LOG sev msg p) = geometryRequests p"
  by (simp_all add: LOG_def)

lemma requested_simps:
  "gEve (requested p) = gEve p"
  "objects (requested p) = objects p"
  "sInstance (requested p) = sInstance p"
  "fairlog (requested p) = fairlog p"
  "geometryRequests (requested p) = Suc (geometryRequests p)"
  "deref (requested p) this = deref p this"
  "sceneChildren mv (requested p) scene = sceneChildren mv p scene"
  "projectionDepth mv (requested p) projection = projectionDepth mv p projection"
  by (simp_all add: requested_def deref_def sceneChildren_def projectionDepth_def)

lemma registerGeometry_returns:
  assumes "deref p this = Some mv"
  shows "\<exists>p'. registerGeometry this (Some g) threeD rPhi zy p = Inr p'"
  using assms by (simp add: registerGeometry_def Let_def)

lemma registerGeometry_Inr:
  assumes "registerGeometry this geom threeD rPhi zy p = Inr p'"
  shows "geom \<noteq> None \<and> deref p this \<noteq> None \<and> objects p' = objects p \<and>
         sInstance p' = sInstance p \<and> fairlog p' = fairlog p \<and>
         geometryRequests p' = geometryRequests p"
  using assms by (auto simp: registerGeometry_def Let_def split: option.splits)

lemma registerGeometry_threeD_only:
  assumes "deref p this = Some mv" "wired mv (gEve p)"
  shows "\<exists>p'. registerGeometry this (Some g) True False False p = Inr p' \<and>
           objects p' = objects p \<and>
           sceneChildren mv p' Scene3dGeom = sceneChildren mv p Scene3dGeom @ [Element g] \<and>
           (\<forall>scene. scene \<noteq> Scene3dGeom \<longrightarrow> sceneChildren mv p' scene = sceneChildren mv p scene)"
  using assms
  by (simp add: registerGeometry_def sceneChildren_def getScene_def engine_simps wired_scenes)

lemma registerGeometry_rPhi:
  assumes "deref p this = Some mv" "wired mv (gEve p)"
  shows "\<exists>p'. registerGeometry this (Some g) threeD True zy p = Inr p' \<and>
           objects p' = objects p \<and>
           projectionDepth mv p' ProjectionRphi = 0 \<and>
           sceneChildren mv p' SceneRphiGeom =
             sceneChildren mv p SceneRphiGeom @ [Projected kPT_RPhi (- 10) g]"
  using assms
  by (simp add: registerGeometry_def sceneChildren_def projectionDepth_def getScene_def
      getProjection_def engine_simps wired_scenes wired_projections wired_kinds Let_def)

lemma registerGeometry_zy:
  assumes "deref p this = Some mv" "wired mv (gEve p)"
  shows "\<exists>p'. registerGeometry this (Some g) threeD rPhi True p = Inr p' \<and>
           objects p' = objects p \<and>
           projectionDepth mv p' ProjectionZY = 0 \<and>
           sceneChildren mv p' SceneZYGeom =
             sceneChildren mv p SceneZYGeom @ [Projected kPT_ZY (- 10) g]"
  using assms
  by (simp add: registerGeometry_def sceneChildren_def projectionDepth_def getScene_def
      getProjection_def engine_simps wired_scenes wired_projections wired_kinds Let_def)

lemma push_back_simps:
  "gEve (push_back this shape p) = gEve p"
  "sInstance (push_back this shape p) = sInstance p"
  "fairlog (push_back this shape p) = fairlog p"
  "length (objects (push_back this shape p)) = length (objects p)"
  "geometryRequests (push_back this shape p) = geometryRequests p"
  by (simp_all add: push_back_def)

lemma deref_push_back:
  assumes "deref p this = Some mv"
  shows "deref (push_back this shape p) this = Some (mv\<lparr>mDetectors := mDetectors mv @ [shape]\<rparr>)"
  using assms by (auto simp: deref_def push_back_def split: if_splits)

lemma sceneChildren_push_back:
  "sceneChildren mv (push_back this shape p) scene = sceneChildren mv p scene"
  by (simp add: sceneChildren_def push_back_simps)

lemma projectionDepth_push_back:
  "projectionDepth mv (push_back this shape p) projection = projectionDepth mv p projection"
  by (simp add: projectionDepth_def push_back_simps)

lemma deref_same:
  assumes "objects p' = objects p" "deref p this = Some mv"
  shows "deref p' this = Some mv"
  using assms by (auto simp: deref_def split: if_splits)

lemma drawGeometryForDetector_Some:
  assumes "provider (geometryRequests p) detectorName = Some g"
    and "registerGeometry this (Some g) threeD rPhi zy (requested p) = Inr p'"
  shows "drawGeometryForDetector provider this detectorName threeD rPhi zy p =
           Inr (push_back this (Some g) p')"
  using assms by (simp add: drawGeometryForDetector_def)

lemma drawGeometryForDetector_threeD_only:
  assumes "deref p this = Some mv" "wired mv (gEve p)"
    and "provider (geometryRequests p) detectorName = Some g"
  shows "\<exists>p'. drawGeometryForDetector provider this detectorName True False False p = Inr p' \<and>
           deref p' this = Some (mv\<lparr>mDetectors := mDetectors mv @ [Some g]\<rparr>) \<and>
           sceneChildren mv p' Scene3dGeom = sceneChildren mv p Scene3dGeom @ [Element g] \<and>
           (\<forall>scene. scene \<noteq> Scene3dGeom \<longrightarrow> sceneChildren mv p' scene = sceneChildren mv p scene)"
proof -
  from registerGeometry_threeD_only [of "requested p" this mv g] assms(1,2) obtain p1 where
    r: "registerGeometry this (Some g) True False False (requested p) = Inr p1"
    and o: "objects p1 = objects p"
    and c: "sceneChildren mv p1 Scene3dGeom = sceneChildren mv p Scene3dGeom @ [Element g]"
    and f: "\<forall>scene. scene \<noteq> Scene3dGeom \<longrightarrow> sceneChildren mv p1 scene = sceneChildren mv p scene"
    by (auto simp: requested_simps)
  from o assms(1) have "deref p1 this = Some mv" by (rule deref_same)
  from deref_push_back [OF this, of "Some g"] drawGeometryForDetector_Some [where provider = provider and detectorName = detectorName, OF assms(3) r] c f
  show ?thesis by (simp add: sceneChildren_push_back)
qed

lemma drawGeometryForDetector_rPhi:
  assumes "deref p this = Some mv" "wired mv (gEve p)"
    and "provider (geometryRequests p) detectorName = Some g"
  shows "\<exists>p'. drawGeometryForDetector provider this detectorName threeD True zy p = Inr p' \<and>
           projectionDepth mv p' ProjectionRphi = 0 \<and>
           sceneChildren mv p' SceneRphiGeom =
             sceneChildren mv p SceneRphiGeom @ [Projected kPT_RPhi (- 10) g]"
proof -
  from registerGeometry_rPhi [of "requested p" this mv g threeD zy] assms(1,2) obtain p1 where
    r: "registerGeometry this (Some g) threeD True zy (requested p) = Inr p1"
    and d: "projectionDepth mv p1 ProjectionRphi = 0"
    and c: "sceneChildren mv p1 SceneRphiGeom =
              sceneChildren mv p SceneRphiGeom @ [Projected kPT_RPhi (- 10) g]"
    by (auto simp: requested_simps)
  from drawGeometryForDetector_Some [where provider = provider and detectorName = detectorName, OF assms(3) r] d c
  show ?thesis by (simp add: sceneChildren_push_back projectionDepth_push_back)
qed

lemma drawGeometryForDetector_zy:
  assumes "deref p this = Some mv" "wired mv (gEve p)"
    and "provider (geometryRequests p) detectorName = Some g"
  shows "\<exists>p'. drawGeometryForDetector provider this detectorName threeD rPhi True p = Inr p' \<and>
           projectionDepth mv p' ProjectionZY = 0 \<and>
           sceneChildren mv p' SceneZYGeom =
             sceneChildren mv p SceneZYGeom @ [Projected kPT_ZY (- 10) g]"
proof -
  from registerGeometry_zy [of "requested p" this mv g threeD rPhi] assms(1,2) obtain p1 where
    r: "registerGeometry this (Some g) threeD rPhi True (requested p) = Inr p1"
    and d: "projectionDepth mv p1 ProjectionZY = 0"
    and c: "sceneChildren mv p1 SceneZYGeom =
              sceneChildren mv p SceneZYGeom @ [Projected kPT_ZY (- 10) g]"
    by (auto simp: requested_simps)
  from drawGeometryForDetector_Some [where provider = provider and detectorName = detectorName, OF assms(3) r] d c
  show ?thesis by (simp add: sceneChildren_push_back projectionDepth_push_back)
qed

subsection \<open>Teardown\<close>

lemma clearDetectors_simps:
  "gEve (clearDetectors this p) = gEve p"
  "sInstance (clearDetectors this p) = sInstance p"
  "fairlog (clearDetectors this p) = fairlog p"
  "length (objects (clearDetectors this p)) = length (objects p)"
  "geometryRequests (clearDetectors this p) = geometryRequests p"
  by (simp_all add: clearDetectors_def)

lemma deref_clearDetectors:
  assumes "deref p this = Some mv"
  shows "deref (clearDetectors this p) this = Some (mv\<lparr>mDetectors := []\<rparr>)"
  using assms by (auto simp: deref_def clearDetectors_def split: if_splits)

lemma deref_gEve_update: "deref (p\<lparr>gEve := e\<rparr>) this = deref p this"
  by (simp add: deref_def)

lemma destroyAllGeometries_result:
  assumes "deref p this = Some mv"
  shows "\<exists>p'. destroyAllGeometries this p = Inr p' \<and>
           deref p' this = Some (mv\<lparr>mDetectors := []\<rparr>) \<and>
           sInstance p' = sInstance p \<and> fairlog p' = fairlog p \<and>
           geometryRequests p' = geometryRequests p \<and>
           length (objects p') = length (objects p) \<and>
           fProjections (gEve p') = fProjections (gEve p) \<and>
           fCurrentEvent (gEve p') = fCurrentEvent (gEve p) \<and>
           sceneChildren mv p' Scene3dGeom = [] \<and>
           sceneChildren mv p' SceneRphiGeom = [] \<and>
           sceneChildren mv p' SceneZYGeom = []"
  using assms
  by (simp add: destroyAllGeometries_def Let_def clearDetectors_simps deref_clearDetectors
      deref_gEve_update sceneChildren_def getScene_def engine_simps)

lemma destroyAllEvents_result:
  assumes "deref p this = Some mv"
  shows "\<exists>p'. destroyAllEvents this p = Inr p' \<and>
           objects p' = objects p \<and> sInstance p' = sInstance p \<and> fairlog p' = fairlog p \<and>
           geometryRequests p' = geometryRequests p \<and>
           fProjections (gEve p') = fProjections (gEve p) \<and>
           fCurrentEvent (gEve p') = map_option (\<lambda>cs. []) (fCurrentEvent (gEve p)) \<and>
           sceneChildren mv p' SceneRphiEvent = [] \<and>
           sceneChildren mv p' SceneZYEvent = [] \<and>
           (\<forall>scene. mScenes mv scene \<noteq> mScenes mv SceneRphiEvent \<longrightarrow>
                    mScenes mv scene \<noteq> mScenes mv SceneZYEvent \<longrightarrow>
                    sceneChildren mv p' scene = sceneChildren mv p scene)"
  using assms
  by (cases "fCurrentEvent (gEve p)")
    (simp_all add: destroyAllEvents_def Let_def sceneChildren_def getScene_def engine_simps)

subsection \<open>Event registration\<close>

lemma addToCurrentEvent_Some:
  assumes "fCurrentEvent e = Some cur"
  shows "addToCurrentEvent event e = Inr (e\<lparr>fCurrentEvent := Some (cur @ [Element event])\<rparr>)"
  using assms by (simp add: addToCurrentEvent_def)

lemma addToCurrentEvent_Inr:
  assumes "addToCurrentEvent event e = Inr e'"
  shows "fProjections e' = fProjections e \<and> fScenes e' = fScenes e"
  using assms by (auto simp: addToCurrentEvent_def split: option.splits)

lemma registerElements_default_projections:
  "registerElements_default n mv els i e = Inr e' \<Longrightarrow> fProjections e' = fProjections e"
proof (induction n mv els i e rule: registerElements_default.induct)
  case (1 n mv els i e)
  show ?case
  proof (cases "i < n")
    case False
    with "1.prems" show ?thesis by (simp add: registerElements_default.simps)
  next
    case True
    with "1.prems" obtain event e1 where
      a: "i < length els" "els ! i = Some event" "addToCurrentEvent event e = Inr e1"
      and b: "registerElements_default n mv els (Suc i)
               (ImportElements (getProjection mv ProjectionZY) event (getScene mv SceneZYEvent) e1) = Inr e'"
      by (subst (asm) registerElements_default.simps) (auto split: if_splits option.splits sum.splits)
    from "1.IH" [OF True a(1) a(2) a(3) b] addToCurrentEvent_Inr [OF a(3)]
    show ?thesis by (simp add: engine_simps)
  qed
qed

lemma registerElements_phi_projections:
  "registerElements_phi n mv els i e = Inr e' \<Longrightarrow> fProjections e' = fProjections e"
proof (induction n mv els i e rule: registerElements_phi.induct)
  case (1 n mv els i e)
  show ?case
  proof (cases "i < n")
    case False
    with "1.prems" show ?thesis by (simp add: registerElements_phi.simps)
  next
    case True
    with "1.prems" obtain event where
      a: "i < length els" "els ! i = Some event"
      and b: "registerElements_phi n mv els (Suc i)
               (ImportElements (getProjection mv ProjectionRphi) event (getScene mv SceneRphiEvent) e) = Inr e'"
      by (subst (asm) registerElements_phi.simps) (auto split: if_splits option.splits)
    from "1.IH" [OF True a(1) a(2) b]
    show ?thesis by (simp add: engine_simps)
  qed
qed

lemma registerElements_Inr:
  assumes "registerElements n this els phis p = Inr p'"
  shows "objects p' = objects p \<and> sInstance p' = sInstance p \<and> fairlog p' = fairlog p \<and>
         geometryRequests p' = geometryRequests p \<and>
         fProjections (gEve p') = fProjections (gEve p)"
  using assms
  by (auto simp: registerElements_def split: option.splits sum.splits
      dest!: registerElements_default_projections registerElements_phi_projections)

lemma registerElement_Inr:
  assumes "registerElement this event p = Inr p'"
  shows "objects p' = objects p \<and> sInstance p' = sInstance p \<and> fairlog p' = fairlog p \<and>
         geometryRequests p' = geometryRequests p \<and>
         fProjections (gEve p') = fProjections (gEve p)"
  using assms
  by (auto simp: registerElement_def Let_def engine_simps split: option.splits sum.splits
      dest!: addToCurrentEvent_Inr)

text \<open>The first loop, from any index on, on an array of non-null elements.\<close>

lemma registerElements_default_run:
  assumes "fCurrentEvent e = Some cur" "i \<le> n" "n \<le> length ds"
  shows "\<exists>e'. registerElements_default n mv (map Some ds) i e = Inr e' \<and>
           fCurrentEvent e' = Some (cur @ map Element (drop i (take n ds))) \<and>
           fProjections e' = fProjections e \<and>
           (\<forall>s. fChildren (fScenes e' s) =
              (if s = getScene mv SceneZYEvent
               then fChildren (fScenes e s) @
                      map (Projected (fProjType (fProjections e (getProjection mv ProjectionZY)))
                             (fCurrentDepth (fProjections e (getProjection mv ProjectionZY))))
                        (drop i (take n ds))
               else fChildren (fScenes e s)))"
  using assms
proof (induction "n - i" arbitrary: i e cur)
  case 0
  then have "i = n" by simp
  then show ?case using "0.prems" by (simp add: registerElements_default.simps)
next
  case (Suc k)
  then have lt: "i < n" and len: "i < length ds" by simp_all
  let ?ev = "ds ! i"
  let ?e1 = "e\<lparr>fCurrentEvent := Some (cur @ [Element ?ev])\<rparr>"
  let ?e2 = "ImportElements (getProjection mv ProjectionZY) ?ev (getScene mv SceneZYEvent) ?e1"
  have step: "registerElements_default n mv (map Some ds) i e =
                registerElements_default n mv (map Some ds) (Suc i) ?e2"
    using lt len Suc.prems(1)
    by (subst registerElements_default.simps) (simp add: addToCurrentEvent_def)
  have cur2: "fCurrentEvent ?e2 = Some (cur @ [Element ?ev])"
    by (simp add: engine_simps)
  have k: "k = n - Suc i" using Suc.hyps(2) by simp
  have "Suc i \<le> n" using lt by simp
  from Suc.hyps(1) [OF k cur2 this Suc.prems(3)] obtain e' where
    r: "registerElements_default n mv (map Some ds) (Suc i) ?e2 = Inr e'"
    and c: "fCurrentEvent e' = Some ((cur @ [Element ?ev]) @ map Element (drop (Suc i) (take n ds)))"
    and pr: "fProjections e' = fProjections ?e2"
    and sc: "\<forall>s. fChildren (fScenes e' s) =
              (if s = getScene mv SceneZYEvent
               then fChildren (fScenes ?e2 s) @
                      map (Projected (fProjType (fProjections ?e2 (getProjection mv ProjectionZY)))
                             (fCurrentDepth (fProjections ?e2 (getProjection mv ProjectionZY))))
                        (drop (Suc i) (take n ds))
               else fChildren (fScenes ?e2 s))"
    by blast
  have dr: "drop i (take n ds) = ?ev # drop (Suc i) (take n ds)"
    using lt len by (simp add: Cons_nth_drop_Suc [symmetric])
  show ?case
    using r c pr sc by (simp add: step dr engine_simps)
qed

lemma registerElements_phi_run:
  assumes "i \<le> n" "n \<le> length ps"
  shows "\<exists>e'. registerElements_phi n mv (map Some ps) i e = Inr e' \<and>
           fCurrentEvent e' = fCurrentEvent e \<and>
           fProjections e' = fProjections e \<and>
           (\<forall>s. fChildren (fScenes e' s) =
              (if s = getScene mv SceneRphiEvent
               then fChildren (fScenes e s) @
                      map (Projected (fProjType (fProjections e (getProjection mv ProjectionRphi)))
                             (fCurrentDepth (fProjections e (getProjection mv ProjectionRphi))))
                        (drop i (take n ps))
               else fChildren (fScenes e s)))"
  using assms
proof (induction "n - i" arbitrary: i e)
  case 0
  then have "i = n" by simp
  then show ?case by (simp add: registerElements_phi.simps)
next
  case (Suc k)
  then have lt: "i < n" and len: "i < length ps" by simp_all
  let ?ev = "ps ! i"
  let ?e2 = "ImportElements (getProjection mv ProjectionRphi) ?ev (getScene mv SceneRphiEvent) e"
  have step: "registerElements_phi n mv (map Some ps) i e =
                registerElements_phi n mv (map Some ps) (Suc i) ?e2"
    using lt len by (subst registerElements_phi.simps) simp
  have k: "k = n - Suc i" using Suc.hyps(2) by simp
  have "Suc i \<le> n" using lt by simp
  from Suc.hyps(1) [OF k this Suc.prems(2)] obtain e' where
    r: "registerElements_phi n mv (map Some ps) (Suc i) ?e2 = Inr e'"
    and c: "fCurrentEvent e' = fCurrentEvent ?e2"
    and pr: "fProjections e' = fProjections ?e2"
    and sc: "\<forall>s. fChildren (fScenes e' s) =
              (if s = getScene mv SceneRphiEvent
               then fChildren (fScenes ?e2 s) @
                      map (Projected (fProjType (fProjections ?e2 (getProjection mv ProjectionRphi)))
                             (fCurrentDepth (fProjections ?e2 (getProjection mv ProjectionRphi))))
                        (drop (Suc i) (take n ps))
               else fChildren (fScenes ?e2 s))"
    by blast
  have dr: "drop i (take n ps) = ?ev # drop (Suc i) (take n ps)"
    using lt len by (simp add: Cons_nth_drop_Suc [symmetric])
  show ?case
    using r c pr sc by (simp add: step dr engine_simps)
qed

text \<open>Both loops together: what \<open>registerElements\<close> leaves in the engine.\<close>

lemma registerElements_result:
  assumes "deref p this = Some mv" "wired mv (gEve p)" "fCurrentEvent (gEve p) = Some cur"
    and "n \<le> length ds" "n \<le> length ps"
  shows "\<exists>p'. registerElements n this (map Some ds) (map Some ps) p = Inr p' \<and>
           fCurrentEvent (gEve p') = Some (cur @ map Element (take n ds)) \<and>
           sceneChildren mv p' SceneZYEvent =
             sceneChildren mv p SceneZYEvent @
               map (Projected kPT_ZY (projectionDepth mv p ProjectionZY)) (take n ds) \<and>
           sceneChildren mv p' SceneRphiEvent =
             sceneChildren mv p SceneRphiEvent @
               map (Projected kPT_RPhi (projectionDepth mv p ProjectionRphi)) (take n ps) \<and>
           (\<forall>scene. scene \<noteq> SceneZYEvent \<longrightarrow> scene \<noteq> SceneRphiEvent \<longrightarrow>
                    sceneChildren mv p' scene = sceneChildren mv p scene)"
proof -
  from registerElements_default_run [OF assms(3) _ assms(4), of 0 mv] obtain e1 where
    r1: "registerElements_default n mv (map Some ds) 0 (gEve p) = Inr e1"
    and c1: "fCurrentEvent e1 = Some (cur @ map Element (take n ds))"
    and p1: "fProjections e1 = fProjections (gEve p)"
    and s1: "\<forall>s. fChildren (fScenes e1 s) =
              (if s = getScene mv SceneZYEvent
               then fChildren (fScenes (gEve p) s) @
                      map (Projected (fProjType (fProjections (gEve p) (getProjection mv ProjectionZY)))
                             (fCurrentDepth (fProjections (gEve p) (getProjection mv ProjectionZY))))
                        (take n ds)
               else fChildren (fScenes (gEve p) s))"
    by auto
  from registerElements_phi_run [OF _ assms(5), of 0 mv e1] obtain e2 where
    r2: "registerElements_phi n mv (map Some ps) 0 e1 = Inr e2"
    and c2: "fCurrentEvent e2 = fCurrentEvent e1"
    and s2: "\<forall>s. fChildren (fScenes e2 s) =
              (if s = getScene mv SceneRphiEvent
               then fChildren (fScenes e1 s) @
                      map (Projected (fProjType (fProjections e1 (getProjection mv ProjectionRphi)))
                             (fCurrentDepth (fProjections e1 (getProjection mv ProjectionRphi))))
                        (take n ps)
               else fChildren (fScenes e1 s))"
    by auto
  have "registerElements n this (map Some ds) (map Some ps) p = Inr (p\<lparr>gEve := e2\<rparr>)"
    using assms(1) r1 r2 by (simp add: registerElements_def)
  then show ?thesis
    using c1 c2 s1 s2 p1 wired_kinds [OF assms(2)]
    by (simp add: sceneChildren_def projectionDepth_def getScene_def getProjection_def
        wired_scenes [OF assms(2)])
qed

lemma registerElement_result:
  assumes "deref p this = Some mv" "wired mv (gEve p)" "fCurrentEvent (gEve p) = Some cur"
  shows "\<exists>p'. registerElement this (Some ev) p = Inr p' \<and>
           fCurrentEvent (gEve p') = Some (cur @ [Element ev]) \<and>
           sceneChildren mv p' SceneRphiEvent =
             sceneChildren mv p SceneRphiEvent @
               [Projected kPT_RPhi (projectionDepth mv p ProjectionRphi) ev] \<and>
           sceneChildren mv p' SceneZYEvent =
             sceneChildren mv p SceneZYEvent @
               [Projected kPT_ZY (projectionDepth mv p ProjectionZY) ev] \<and>
           (\<forall>scene. scene \<noteq> SceneZYEvent \<longrightarrow> scene \<noteq> SceneRphiEvent \<longrightarrow>
                    sceneChildren mv p' scene = sceneChildren mv p scene)"
  using assms wired_kinds [OF assms(2)]
  by (simp add: registerElement_def addToCurrentEvent_def Let_def sceneChildren_def
      projectionDepth_def getScene_def getProjection_def engine_simps wired_scenes [OF assms(2)])

subsection \<open>The constructor\<close>

lemma mDetectors_spawnScenes: "mDetectors (fst (spawnScenes xs me)) = mDetectors (fst me)"
  by (induction xs me rule: spawnScenes.induct) (simp_all add: SpawnNewScene_def)

lemma fCurrentEvent_spawnScenes: "fCurrentEvent (snd (spawnScenes xs me)) = fCurrentEvent (snd me)"
  by (induction xs me rule: spawnScenes.induct) (simp_all add: SpawnNewScene_def)

lemma mScenes_ctor_scenes:
  "mScenes (fst (ctor_scenes me)) =
     (mScenes (fst me))
       (Scene3dGeom := fGlobalScene (snd me), Scene3dEvent := fEventScene (snd me),
        SceneRphiGeom := fNextScene (snd me), SceneZYGeom := Suc (fNextScene (snd me)),
        SceneRphiEvent := Suc (Suc (fNextScene (snd me))),
        SceneZYEvent := Suc (Suc (Suc (fNextScene (snd me)))))"
  by (simp add: ctor_scenes_def spawnedScenes_def SpawnNewScene_def SetNameTitle_def Let_def split_def)

lemma mDetectors_ctor_scenes: "mDetectors (fst (ctor_scenes me)) = mDetectors (fst me)"
  by (simp add: ctor_scenes_def mDetectors_spawnScenes Let_def split_def)

lemma fCurrentEvent_ctor_scenes: "fCurrentEvent (snd (ctor_scenes me)) = fCurrentEvent (snd me)"
  by (simp add: ctor_scenes_def fCurrentEvent_spawnScenes Let_def split_def SetNameTitle_def)

lemma ctor_projections_fst:
  "fst (ctor_projections me) =
     (fst me)\<lparr>mProjections := (mProjections (fst me))
        (ProjectionRphi := fNextProjection (snd me), ProjectionZY := Suc (fNextProjection (snd me)))\<rparr>"
  by (simp add: ctor_projections_def newProjectionManager_def SetProjection_def Let_def split_def)

lemma ctor_projections_snd:
  "fProjType (fProjections (snd (ctor_projections me)) (fNextProjection (snd me))) = kPT_RPhi"
  "fProjType (fProjections (snd (ctor_projections me)) (Suc (fNextProjection (snd me)))) = kPT_ZY"
  "fCurrentDepth (fProjections (snd (ctor_projections me)) (fNextProjection (snd me))) = 0"
  "fCurrentDepth (fProjections (snd (ctor_projections me)) (Suc (fNextProjection (snd me)))) = 0"
  "fCurrentEvent (snd (ctor_projections me)) = fCurrentEvent (snd me)"
  by (simp_all add: ctor_projections_def newProjectionManager_def SetProjection_def Let_def split_def)

lemma addAxes_simps:
  "fProjections (addAxes xs mv e) = fProjections e"
  "fCurrentEvent (addAxes xs mv e) = fCurrentEvent e"
  by (induction xs mv e rule: addAxes.induct) (simp_all add: addChild_def removeChild_def Let_def)

lemma ctor_axes_simps:
  "fst (ctor_axes ax me) = fst me"
  "fProjections (snd (ctor_axes ax me)) = fProjections (snd me)"
  "fCurrentEvent (snd (ctor_axes ax me)) = fCurrentEvent (snd me)"
  by (simp_all add: ctor_axes_def split_def addAxes_simps)

lemma setupMultiview_simps:
  "mScenes (fst (setupMultiview me)) = mScenes (fst me)"
  "mProjections (fst (setupMultiview me)) = mProjections (fst me)"
  "mDetectors (fst (setupMultiview me)) = mDetectors (fst me)"
  "fProjections (snd (setupMultiview me)) = fProjections (snd me)"
  "fCurrentEvent (snd (setupMultiview me)) = fCurrentEvent (snd me)"
  by (simp_all add: setupMultiview_def split_def Let_def SpawnNewViewer_def AddScene_def)

lemmas ctor_stage_simps =
  setupMultiview_simps ctor_axes_simps ctor_projections_fst ctor_projections_snd
  mScenes_ctor_scenes mDetectors_ctor_scenes fCurrentEvent_ctor_scenes

lemma ctor_frame:
  "sInstance (MultiView_ctor ax p) = Some (length (objects p))"
  "fairlog (MultiView_ctor ax p) = fairlog p"
  "geometryRequests (MultiView_ctor ax p) = geometryRequests p"
  "length (objects (MultiView_ctor ax p)) = Suc (length (objects p))"
  "i < length (objects p) \<Longrightarrow> objects (MultiView_ctor ax p) ! i = objects p ! i"
  by (simp_all add: MultiView_ctor_def split_def Let_def nth_append)

lemma ctor_object:
  "objects (MultiView_ctor ax p) ! length (objects p) =
     fst (setupMultiview (ctor_axes ax (ctor_projections (ctor_scenes (freshMultiView, gEve p)))))"
  "gEve (MultiView_ctor ax p) =
     snd (setupMultiview (ctor_axes ax (ctor_projections (ctor_scenes (freshMultiView, gEve p)))))"
  by (simp_all add: MultiView_ctor_def split_def Let_def)

lemma ctor_deref:
  "deref (MultiView_ctor ax p) (length (objects p)) =
     Some (objects (MultiView_ctor ax p) ! length (objects p))"
  by (simp add: deref_def ctor_frame)

lemma ctor_deref_old:
  assumes "deref p this = Some mv"
  shows "deref (MultiView_ctor ax p) this = Some mv"
  using assms by (auto simp: deref_def ctor_frame split: if_splits)

lemma ctor_mDetectors: "mDetectors (objects (MultiView_ctor ax p) ! length (objects p)) = []"
  by (simp add: ctor_object ctor_stage_simps freshMultiView_def)

lemma ctor_fCurrentEvent: "fCurrentEvent (gEve (MultiView_ctor ax p)) = fCurrentEvent (gEve p)"
  by (simp add: ctor_object ctor_stage_simps)

lemma ctor_wired:
  assumes "engine_ok (gEve p)"
  shows "wired (objects (MultiView_ctor ax p) ! length (objects p)) (gEve (MultiView_ctor ax p))"
  using assms
  by (simp add: wired_def ctor_object ctor_stage_simps allScenes_def spawnedScenes_def engine_ok_def)

lemma ctor_depths:
  "projectionDepth (objects (MultiView_ctor ax p) ! length (objects p)) (MultiView_ctor ax p) projection = 0"
  by (cases projection)
    (simp_all add: projectionDepth_def getProjection_def ctor_object ctor_stage_simps)

subsection \<open>The singleton\<close>

lemma getInstance_first:
  assumes "sInstance p = None"
  shows "getInstance ax p = (Some (length (objects p)), MultiView_ctor ax p)"
  using assms by (simp add: getInstance_def ctor_frame)

lemma getInstance_again:
  assumes "sInstance p = Some a"
  shows "getInstance ax p = (Some a, p)"
  using assms by (simp add: getInstance_def)

lemma getInstance_sInstance: "sInstance (snd (getInstance ax p)) = fst (getInstance ax p)"
  by (simp add: getInstance_def Let_def)

lemma getInstance_not_null: "fst (getInstance ax p) \<noteq> None"
  by (cases "sInstance p") (simp_all add: getInstance_first getInstance_again)

lemma getInstance_requests: "geometryRequests (snd (getInstance ax p)) = geometryRequests p"
  by (cases "sInstance p") (simp_all add: getInstance_first getInstance_again ctor_frame)

lemma getInstance_deref:
  assumes "deref p this = Some mv"
  shows "deref (snd (getInstance ax p)) this = Some mv"
  using assms by (cases "sInstance p") (simp_all add: getInstance_first getInstance_again ctor_deref_old)

subsection \<open>The example states\<close>

lemma engine_ok_boot: "engine_ok (gEve boot)"
  by (simp add: engine_ok_def boot_def bootEngine_def)

lemma demo_ctor: "demo = MultiView_ctor False boot"
  by (simp add: demo_def getInstance_first boot_def)

lemma demo_deref: "deref demo 0 = Some demoView"
  using ctor_deref [of False boot] by (simp add: demo_ctor demoView_def boot_def)

lemma demo_wired: "wired demoView (gEve demo)"
  using ctor_wired [OF engine_ok_boot, of False] by (simp add: demo_ctor demoView_def boot_def)

lemma demo_current_event: "fCurrentEvent (gEve demo) = Some []"
  by (simp add: demo_ctor ctor_fCurrentEvent boot_def bootEngine_def)

lemma demo_mDetectors: "mDetectors demoView = []"
  using ctor_mDetectors [of False boot] by (simp add: demo_ctor demoView_def boot_def)

lemma demo_sInstance: "sInstance demo = Some 0"
  by (simp add: demo_ctor ctor_frame boot_def)

lemma demo_requests: "geometryRequests demo = 0"
  by (simp add: demo_ctor ctor_frame boot_def)

lemma demo_depths: "projectionDepth demoView demo projection = 0"
  using ctor_depths [of False boot projection] by (simp add: demo_ctor demoView_def boot_def)

lemma demo5_deref: "deref demo5 0 = Some demoView"
  by (simp add: demo5_def deref_gEve_update demo_deref)

lemma demo5_wired: "wired demoView (gEve demo5)"
  by (rule wired_cong [OF demo_wired]) (simp_all add: demo5_def engine_simps)

lemma demo5_requests: "geometryRequests demo5 = 0"
  by (simp add: demo5_def demo_requests)

lemma demo5_depth: "projectionDepth demoView demo5 ProjectionRphi = 5"
  by (simp add: demo5_def projectionDepth_def engine_simps)

lemma demoNoEvent_deref: "deref demoNoEvent 0 = Some demoView"
  by (simp add: demoNoEvent_def deref_gEve_update demo_deref)

lemma demoNoEvent_wired: "wired demoView (gEve demoNoEvent)"
  by (rule wired_cong [OF demo_wired]) (simp_all add: demoNoEvent_def)

lemma demoNoEvent_current_event: "fCurrentEvent (gEve demoNoEvent) = None"
  by (simp add: demoNoEvent_def)

text \<open>The destructor clears the geometries and leaves \<open>sInstance\<close> as it is.\<close>

lemma dtor_keeps_sInstance:
  assumes "MultiView_dtor this p = Inr p'"
  shows "sInstance p' = sInstance p"
  using assms
  by (auto simp: MultiView_dtor_def destroyAllGeometries_def Let_def clearDetectors_simps
      split: option.splits)

subsection \<open>The lookup list along a run of calls\<close>

lemma scanDetectors_filter:
  assumes "None \<notin> set xs"
  shows "scanDetectors detectorName xs =
           Inr (case filter (named detectorName) xs of [] \<Rightarrow> None | s # rest \<Rightarrow> s)"
  using assms
proof (induction xs)
  case Nil
  show ?case by simp
next
  case (Cons x xs)
  then obtain g where "x = Some g" by (cases x) auto
  with Cons show ?case by simp
qed

lemma registrations_Cons:
  "registrations pr k (c # cs) acc =
     registrations pr (if isDraw c then Suc k else k) cs (registrations pr k [c] acc)"
  by (cases c) simp_all

lemma registrations_length:
  assumes "DestroyGeometries \<notin> set cs"
  shows "length (registrations pr k cs acc) = length acc + length (filter isDraw cs)"
  using assms
proof (induction cs arbitrary: acc k)
  case Nil
  show ?case by simp
next
  case (Cons c cs)
  then show ?case by (cases c) simp_all
qed

lemma registrations_destroyed: "registrations pr k (cs @ [DestroyGeometries]) acc = []"
proof (induction cs arbitrary: acc k)
  case Nil
  show ?case by simp
next
  case (Cons c cs)
  then show ?case by (cases c) simp_all
qed

lemma allReturning_Cons:
  assumes "allReturning pr k (c # cs)"
  shows "allReturning pr k [c] \<and> allReturning pr (if isDraw c then Suc k else k) cs"
  using assms by (cases c) simp_all

lemma drawGeometryForDetector_Inr:
  assumes "drawGeometryForDetector pr this detectorName threeD rPhi zy p = Inr p'"
    and "deref p this = Some mv"
  shows "\<exists>g. pr (geometryRequests p) detectorName = Some g \<and>
           deref p' this = Some (mv\<lparr>mDetectors := mDetectors mv @ [Some g]\<rparr>) \<and>
           sInstance p' = sInstance p \<and> length (objects p') = length (objects p) \<and>
           geometryRequests p' = Suc (geometryRequests p)"
proof -
  let ?shape = "pr (geometryRequests p) detectorName"
  from assms(1) obtain p1 where
    r: "registerGeometry this ?shape threeD rPhi zy (requested p) = Inr p1"
    and p': "p' = push_back this ?shape p1"
    by (auto simp: drawGeometryForDetector_def Let_def split: sum.splits)
  from registerGeometry_Inr [OF r] obtain g where
    g: "?shape = Some g" and o: "objects p1 = objects p" and s: "sInstance p1 = sInstance p"
    and k: "geometryRequests p1 = Suc (geometryRequests p)"
    by (auto simp: requested_simps)
  from o assms(2) have "deref p1 this = Some mv" by (rule deref_same)
  from deref_push_back [OF this] show ?thesis
    using g o s k p' by (simp add: push_back_simps)
qed

lemma unchanged_objects_effect:
  assumes "objects p' = objects p" "deref p this = Some mv"
  shows "\<exists>mv'. deref p' this = Some mv' \<and>
           mDetectors mv' = mDetectors mv \<and>
           (None \<notin> set (mDetectors mv) \<longrightarrow> None \<notin> set (mDetectors mv'))"
  using deref_same [OF assms] by simp

lemma perform_effect:
  assumes "perform ax pr n this c p = Inr p'" "deref p this = Some mv"
  shows "\<exists>mv'. deref p' this = Some mv' \<and>
           mDetectors mv' = registrations pr (geometryRequests p) [c] (mDetectors mv) \<and>
           geometryRequests p' = (if isDraw c then Suc (geometryRequests p) else geometryRequests p) \<and>
           (None \<notin> set (mDetectors mv) \<longrightarrow> None \<notin> set (mDetectors mv'))"
proof (cases c)
  case Instance
  with assms(1) have "p' = snd (getInstance ax p)" by simp
  with getInstance_deref [OF assms(2), of ax] getInstance_requests [of ax p]
  show ?thesis using Instance by simp
next
  case (Draw name threeD rPhi zy)
  with assms(1) have "drawGeometryForDetector pr this name threeD rPhi zy p = Inr p'" by simp
  from drawGeometryForDetector_Inr [OF this assms(2)] show ?thesis using Draw by auto
next
  case (Register geom threeD rPhi zy)
  with assms(1) have "registerGeometry this geom threeD rPhi zy p = Inr p'" by simp
  from registerGeometry_Inr [OF this]
  have "objects p' = objects p" and k: "geometryRequests p' = geometryRequests p" by simp_all
  from unchanged_objects_effect [OF this(1) assms(2)] k show ?thesis using Register by simp
next
  case (Lookup name)
  with assms(1) have "p' = p" by (simp split: sum.splits)
  with assms(2) show ?thesis using Lookup by simp
next
  case DestroyGeometries
  with assms(1) have "destroyAllGeometries this p = Inr p'" by simp
  with destroyAllGeometries_result [OF assms(2)] show ?thesis using DestroyGeometries by auto
next
  case (RegisterEvents els phis)
  with assms(1) have "registerElements n this els phis p = Inr p'" by simp
  from registerElements_Inr [OF this]
  have "objects p' = objects p" and k: "geometryRequests p' = geometryRequests p" by simp_all
  from unchanged_objects_effect [OF this(1) assms(2)] k show ?thesis using RegisterEvents by simp
next
  case (RegisterEvent ev)
  with assms(1) have "registerElement this ev p = Inr p'" by simp
  from registerElement_Inr [OF this]
  have "objects p' = objects p" and k: "geometryRequests p' = geometryRequests p" by simp_all
  from unchanged_objects_effect [OF this(1) assms(2)] k show ?thesis using RegisterEvent by simp
next
  case DestroyEvents
  with assms(1) have "destroyAllEvents this p = Inr p'" by simp
  with destroyAllEvents_result [OF assms(2)]
  have "objects p' = objects p" and k: "geometryRequests p' = geometryRequests p" by auto
  from unchanged_objects_effect [OF this(1) assms(2)] k show ?thesis using DestroyEvents by simp
next
  case Redraw
  with assms(1) have "objects p' = objects p" and k: "geometryRequests p' = geometryRequests p"
    by (auto simp: redraw3D_def)
  from unchanged_objects_effect [OF this(1) assms(2)] k show ?thesis using Redraw by simp
qed

lemma performAll_effect:
  assumes "performAll ax pr n this cs p = Inr p'" "deref p this = Some mv"
  shows "\<exists>mv'. deref p' this = Some mv' \<and>
           mDetectors mv' = registrations pr (geometryRequests p) cs (mDetectors mv) \<and>
           (None \<notin> set (mDetectors mv) \<longrightarrow> None \<notin> set (mDetectors mv'))"
  using assms
proof (induction cs arbitrary: p mv)
  case Nil
  then show ?case by simp
next
  case (Cons c cs)
  from Cons.prems(1) obtain p1 where
    a: "perform ax pr n this c p = Inr p1" and b: "performAll ax pr n this cs p1 = Inr p'"
    by (auto split: sum.splits)
  from perform_effect [OF a Cons.prems(2)] obtain mv1 where
    c1: "deref p1 this = Some mv1"
    and c2: "mDetectors mv1 = registrations pr (geometryRequests p) [c] (mDetectors mv)"
    and c3: "geometryRequests p1 = (if isDraw c then Suc (geometryRequests p) else geometryRequests p)"
    and c4: "None \<notin> set (mDetectors mv) \<longrightarrow> None \<notin> set (mDetectors mv1)"
    by blast
  from Cons.IH [OF b c1] obtain mv' where
    d1: "deref p' this = Some mv'"
    and d2: "mDetectors mv' = registrations pr (geometryRequests p1) cs (mDetectors mv1)"
    and d3: "None \<notin> set (mDetectors mv1) \<longrightarrow> None \<notin> set (mDetectors mv')"
    by blast
  have "mDetectors mv' = registrations pr (geometryRequests p) (c # cs) (mDetectors mv)"
    using d2 c2 c3 registrations_Cons [of pr "geometryRequests p" c cs "mDetectors mv"] by simp
  with d1 d3 c4 show ?case by blast
qed

subsection \<open>The singleton along a run of calls\<close>

lemma perform_singleton:
  assumes "perform ax pr n this c p = Inr p'" "sInstance p = Some a"
  shows "sInstance p' = Some a \<and> length (objects p') = length (objects p)"
proof (cases c)
  case Instance
  with assms show ?thesis by (auto simp: getInstance_again)
next
  case (Draw name threeD rPhi zy)
  let ?shape = "pr (geometryRequests p) name"
  from assms(1) obtain p1 where
    r: "registerGeometry this ?shape threeD rPhi zy (requested p) = Inr p1"
    and p': "p' = push_back this ?shape p1"
    using Draw by (auto simp: drawGeometryForDetector_def Let_def split: sum.splits)
  from registerGeometry_Inr [OF r] assms(2) p' show ?thesis
    by (simp add: push_back_simps requested_simps)
next
  case (Register geom threeD rPhi zy)
  with assms registerGeometry_Inr [of this geom threeD rPhi zy p p']
  show ?thesis by auto
next
  case (Lookup name)
  with assms show ?thesis by (auto split: sum.splits)
next
  case DestroyGeometries
  with assms show ?thesis
    by (auto simp: destroyAllGeometries_def Let_def clearDetectors_simps split: option.splits)
next
  case (RegisterEvents els phis)
  with assms registerElements_Inr [of n this els phis p p']
  show ?thesis by auto
next
  case (RegisterEvent ev)
  with assms registerElement_Inr [of this ev p p']
  show ?thesis by auto
next
  case DestroyEvents
  with assms show ?thesis
    by (auto simp: destroyAllEvents_def Let_def split: option.splits)
next
  case Redraw
  with assms show ?thesis by (auto simp: redraw3D_def)
qed

lemma performAll_singleton:
  assumes "performAll ax pr n this cs p = Inr p'" "sInstance p = Some a"
  shows "sInstance p' = Some a \<and> length (objects p') = length (objects p)"
  using assms
proof (induction cs arbitrary: p)
  case Nil
  then show ?case by simp
next
  case (Cons c cs)
  from Cons.prems(1) obtain p1 where
    a: "perform ax pr n this c p = Inr p1" and b: "performAll ax pr n this cs p1 = Inr p'"
    by (auto split: sum.splits)
  from perform_singleton [OF a Cons.prems(2)] Cons.IH [OF b] show ?case by simp
qed

subsection \<open>Runs that return\<close>

lemma drawGeometryForDetector_returns:
  assumes "deref p this = Some mv" "pr (geometryRequests p) detectorName = Some g"
  shows "\<exists>p'. drawGeometryForDetector pr this detectorName threeD rPhi zy p = Inr p'"
  using registerGeometry_returns [of "requested p" this mv g threeD rPhi zy] assms
  by (auto simp: drawGeometryForDetector_def requested_simps)

lemma getDetectorGeometry_returns:
  assumes "deref p this = Some mv" "None \<notin> set (mDetectors mv)"
  shows "\<exists>r. getDetectorGeometry this detectorName p = Inr r"
  using assms by (simp add: getDetectorGeometry_def scanDetectors_filter)

lemma perform_returns:
  assumes "deref p this = Some mv" "None \<notin> set (mDetectors mv)"
    and "allReturning pr (geometryRequests p) [c]"
  shows "\<exists>p'. perform ax pr n this c p = Inr p'"
proof (cases c)
  case (Draw name threeD rPhi zy)
  with assms(3) obtain g where "pr (geometryRequests p) name = Some g" by auto
  from drawGeometryForDetector_returns [where pr = pr and detectorName = name, OF assms(1) this]
  show ?thesis using Draw by simp
next
  case (Register geom threeD rPhi zy)
  with assms(3) obtain g where "geom = Some g" by auto
  with registerGeometry_returns [OF assms(1), of g threeD rPhi zy] show ?thesis
    using Register by simp
next
  case (Lookup name)
  from getDetectorGeometry_returns [OF assms(1) assms(2), of name] show ?thesis
    using Lookup by auto
next
  case DestroyGeometries
  with destroyAllGeometries_result [OF assms(1)] show ?thesis by auto
next
  case DestroyEvents
  with destroyAllEvents_result [OF assms(1)] show ?thesis by auto
next
  case (RegisterEvents els phis)
  with assms(3) show ?thesis by simp
next
  case (RegisterEvent ev)
  with assms(3) show ?thesis by simp
qed (simp_all add: redraw3D_def)

lemma performAll_returns:
  assumes "deref p this = Some mv" "None \<notin> set (mDetectors mv)"
    and "allReturning pr (geometryRequests p) cs"
  shows "\<exists>p'. performAll ax pr n this cs p = Inr p'"
  using assms
proof (induction cs arbitrary: p mv)
  case Nil
  show ?case by simp
next
  case (Cons c cs)
  from allReturning_Cons [OF Cons.prems(3)]
  have rc: "allReturning pr (geometryRequests p) [c]"
    and rest: "allReturning pr (if isDraw c then Suc (geometryRequests p) else geometryRequests p) cs"
    by simp_all
  from perform_returns [OF Cons.prems(1) Cons.prems(2) rc] obtain p1 where
    a: "perform ax pr n this c p = Inr p1" by blast
  from perform_effect [OF a Cons.prems(1)] Cons.prems(2) obtain mv1 where
    b: "deref p1 this = Some mv1" "None \<notin> set (mDetectors mv1)"
    and k: "geometryRequests p1 = (if isDraw c then Suc (geometryRequests p) else geometryRequests p)"
    by blast
  from rest k have "allReturning pr (geometryRequests p1) cs" by simp
  from Cons.IH [OF b this] a show ?case by simp
qed

section \<open>The properties the specification states\<close>

text \<open>
  C1. The claim that a registration with \<open>intoRPhi=true\<close> leaves the depth of the R-Phi
  projection at its pre-call value, whatever that value was, fails: on a coordinator whose
  R-Phi projection is at depth 5, \<open>registerGeometry\<close> with only the R-Phi flag returns
  with the depth at 0.
\<close>

theorem registerGeometry_depth_counterexample:
  "projectionDepth demoView demo5 ProjectionRphi = 5 \<and>
   depthAfter demoView ProjectionRphi (registerGeometry 0 (Some tpc) False True False demo5) = Some 0"
proof -
  from registerGeometry_rPhi [OF demo5_deref demo5_wired, of tpc False False] obtain p' where
    "registerGeometry 0 (Some tpc) False True False demo5 = Inr p'"
    "projectionDepth demoView p' ProjectionRphi = 0"
    by blast
  then show ?thesis by (simp add: demo5_depth)
qed

text \<open>
  C1, as amended. A registration of a shape with \<open>intoRPhi=true\<close>, through
  \<open>registerGeometry\<close> or through \<open>drawGeometryForDetector\<close>, returns with the depth of the
  R-Phi projection at 0, so at its pre-call value exactly when that was 0; the replica
  imported into the R-Phi geometry scene is at depth -10. The same holds for
  \<open>intoZY=true\<close>, the ZY projection and the ZY geometry scene.
\<close>

theorem registerGeometry_depth_bracket:
  assumes "deref p this = Some mv" "wired mv (gEve p)"
  shows "(\<exists>p'. registerGeometry this (Some g) threeD True zy p = Inr p' \<and>
            projectionDepth mv p' ProjectionRphi = 0 \<and>
            ((projectionDepth mv p' ProjectionRphi = projectionDepth mv p ProjectionRphi) =
               (projectionDepth mv p ProjectionRphi = 0)) \<and>
            sceneChildren mv p' SceneRphiGeom =
              sceneChildren mv p SceneRphiGeom @ [Projected kPT_RPhi (- 10) g]) \<and>
         (\<exists>p'. registerGeometry this (Some g) threeD rPhi True p = Inr p' \<and>
            projectionDepth mv p' ProjectionZY = 0 \<and>
            ((projectionDepth mv p' ProjectionZY = projectionDepth mv p ProjectionZY) =
               (projectionDepth mv p ProjectionZY = 0)) \<and>
            sceneChildren mv p' SceneZYGeom =
              sceneChildren mv p SceneZYGeom @ [Projected kPT_ZY (- 10) g]) \<and>
         (provider (geometryRequests p) detectorName = Some g \<longrightarrow>
            (\<exists>p'. drawGeometryForDetector provider this detectorName threeD True zy p = Inr p' \<and>
               projectionDepth mv p' ProjectionRphi = 0 \<and>
               sceneChildren mv p' SceneRphiGeom =
                 sceneChildren mv p SceneRphiGeom @ [Projected kPT_RPhi (- 10) g]) \<and>
            (\<exists>p'. drawGeometryForDetector provider this detectorName threeD rPhi True p = Inr p' \<and>
               projectionDepth mv p' ProjectionZY = 0 \<and>
               sceneChildren mv p' SceneZYGeom =
                 sceneChildren mv p SceneZYGeom @ [Projected kPT_ZY (- 10) g]))"
proof -
  have a: "\<exists>p'. registerGeometry this (Some g) threeD True zy p = Inr p' \<and>
            projectionDepth mv p' ProjectionRphi = 0 \<and>
            ((projectionDepth mv p' ProjectionRphi = projectionDepth mv p ProjectionRphi) =
               (projectionDepth mv p ProjectionRphi = 0)) \<and>
            sceneChildren mv p' SceneRphiGeom =
              sceneChildren mv p SceneRphiGeom @ [Projected kPT_RPhi (- 10) g]"
    using registerGeometry_rPhi [OF assms, of g threeD zy] by auto
  have b: "\<exists>p'. registerGeometry this (Some g) threeD rPhi True p = Inr p' \<and>
            projectionDepth mv p' ProjectionZY = 0 \<and>
            ((projectionDepth mv p' ProjectionZY = projectionDepth mv p ProjectionZY) =
               (projectionDepth mv p ProjectionZY = 0)) \<and>
            sceneChildren mv p' SceneZYGeom =
              sceneChildren mv p SceneZYGeom @ [Projected kPT_ZY (- 10) g]"
    using registerGeometry_zy [OF assms, of g threeD rPhi] by auto
  have c: "provider (geometryRequests p) detectorName = Some g \<Longrightarrow>
            \<exists>p'. drawGeometryForDetector provider this detectorName threeD True zy p = Inr p' \<and>
               projectionDepth mv p' ProjectionRphi = 0 \<and>
               sceneChildren mv p' SceneRphiGeom =
                 sceneChildren mv p SceneRphiGeom @ [Projected kPT_RPhi (- 10) g]"
    by (rule drawGeometryForDetector_rPhi [OF assms])
  have d: "provider (geometryRequests p) detectorName = Some g \<Longrightarrow>
            \<exists>p'. drawGeometryForDetector provider this detectorName threeD rPhi True p = Inr p' \<and>
               projectionDepth mv p' ProjectionZY = 0 \<and>
               sceneChildren mv p' SceneZYGeom =
                 sceneChildren mv p SceneZYGeom @ [Projected kPT_ZY (- 10) g]"
    by (rule drawGeometryForDetector_zy [OF assms])
  from a b c d show ?thesis by blast
qed

theorem registerGeometry_depth_bracket_witness:
  "deref demo5 0 = Some demoView \<and> wired demoView (gEve demo5) \<and>
   stubProvider (geometryRequests demo5) ''TPC'' = Some tpc \<and>
   projectionDepth demoView demo5 ProjectionRphi = 5 \<and>
   (\<exists>p'. drawGeometryForDetector stubProvider 0 ''TPC'' True True False demo5 = Inr p' \<and>
      projectionDepth demoView p' ProjectionRphi = 0 \<and>
      sceneChildren demoView p' SceneRphiGeom =
        sceneChildren demoView demo5 SceneRphiGeom @ [Projected kPT_RPhi (- 10) tpc])"
proof -
  have h: "stubProvider (geometryRequests demo5) ''TPC'' = Some tpc"
    by (simp add: stubProvider_def demo5_requests tpc_def)
  from registerGeometry_depth_bracket
         [OF demo5_deref demo5_wired, of tpc True False False stubProvider "''TPC''"] h
  show ?thesis by (auto simp: demo5_deref demo5_wired demo5_depth)
qed

text \<open>
  C2. \<open>registerGeometry\<close> with a null shape, and \<open>drawGeometryForDetector\<close> when the
  provider resolves no shape, log one message at error severity and exit with status -1.
  They do not return, whatever the flags and the \<open>this\<close> pointer, and the process state at
  the exit differs from the state at the call in the log (and in the count of requests to
  the provider) only: the engine with its scenes and the coordinator objects with their
  lookup lists are untouched.
\<close>

theorem registerGeometry_null_is_fatal:
  "registerGeometry this None threeD rPhi zy p =
     Inl (Exited (- 1) (LOG error ''MultiView::registerGeometry -- geometry is NULL!'' p)) \<and>
   (\<forall>p'. registerGeometry this None threeD rPhi zy p \<noteq> Inr p') \<and>
   (provider (geometryRequests p) detectorName = None \<longrightarrow>
      drawGeometryForDetector provider this detectorName threeD rPhi zy p =
        Inl (Exited (- 1)
              (LOG error ''MultiView::registerGeometry -- geometry is NULL!'' (requested p))) \<and>
      (\<forall>p'. drawGeometryForDetector provider this detectorName threeD rPhi zy p \<noteq> Inr p')) \<and>
   gEve (LOG error ''MultiView::registerGeometry -- geometry is NULL!'' p) = gEve p \<and>
   objects (LOG error ''MultiView::registerGeometry -- geometry is NULL!'' p) = objects p \<and>
   fairlog (LOG error ''MultiView::registerGeometry -- geometry is NULL!'' p) =
     fairlog p @ [(error, ''MultiView::registerGeometry -- geometry is NULL!'')] \<and>
   gEve (LOG error ''MultiView::registerGeometry -- geometry is NULL!'' (requested p)) = gEve p \<and>
   objects (LOG error ''MultiView::registerGeometry -- geometry is NULL!'' (requested p)) = objects p \<and>
   fairlog (LOG error ''MultiView::registerGeometry -- geometry is NULL!'' (requested p)) =
     fairlog p @ [(error, ''MultiView::registerGeometry -- geometry is NULL!'')]"
  by (simp add: registerGeometry_null drawGeometryForDetector_def LOG_simps requested_simps)

theorem registerGeometry_null_is_fatal_witness:
  "stubProvider (geometryRequests demo) ''EMC'' = None \<and>
   drawGeometryForDetector stubProvider 0 ''EMC'' True True True demo =
     Inl (Exited (- 1)
           (LOG error ''MultiView::registerGeometry -- geometry is NULL!'' (requested demo))) \<and>
   objects (LOG error ''MultiView::registerGeometry -- geometry is NULL!'' (requested demo)) = objects demo \<and>
   gEve (LOG error ''MultiView::registerGeometry -- geometry is NULL!'' (requested demo)) = gEve demo"
proof -
  have h: "stubProvider (geometryRequests demo) ''EMC'' = None" by (simp add: stubProvider_def)
  from registerGeometry_null_is_fatal [of 0 True True True demo stubProvider "''EMC''"] h
  show ?thesis by simp
qed

text \<open>
  C3. After any run of calls that started with an empty lookup list, \<open>getDetectorGeometry\<close>
  for a name is the linear scan of the registrations in force, that is of the shapes drawn
  since the last \<open>destroyAllGeometries\<close>, in the order of the calls (direct
  \<open>registerGeometry\<close> calls do not enter the list): it returns null when
  no shape of that name is among them, in particular when the run ended with
  \<open>destroyAllGeometries\<close>; it returns the shape when exactly one has the name; and with
  several shapes of the name it returns the one registered first. The name of a registration
  is the name its shape carries, which is what the scan compares.
\<close>

theorem getDetectorGeometry_first_registration:
  assumes "deref p this = Some mv" "mDetectors mv = []"
    and "performAll ax pr n this cs p = Inr p'"
  shows "getDetectorGeometry this detectorName p' =
           scanDetectors detectorName (registrations pr (geometryRequests p) cs []) \<and>
         (filter (named detectorName) (registrations pr (geometryRequests p) cs []) = [] \<longrightarrow>
            getDetectorGeometry this detectorName p' = Inr None) \<and>
         (\<forall>cs0. cs = cs0 @ [DestroyGeometries] \<longrightarrow>
            getDetectorGeometry this detectorName p' = Inr None) \<and>
         (\<forall>g. filter (named detectorName) (registrations pr (geometryRequests p) cs []) = [Some g] \<longrightarrow>
            getDetectorGeometry this detectorName p' = Inr (Some g)) \<and>
         (\<forall>s rest. filter (named detectorName) (registrations pr (geometryRequests p) cs []) = s # rest \<longrightarrow>
            getDetectorGeometry this detectorName p' = Inr s \<and> s \<noteq> None)"
proof -
  from performAll_effect [OF assms(3) assms(1)] assms(2) obtain mv' where
    d: "deref p' this = Some mv'"
    and m: "mDetectors mv' = registrations pr (geometryRequests p) cs []"
    and nn: "None \<notin> set (mDetectors mv')"
    by auto
  have g: "getDetectorGeometry this detectorName p' =
             scanDetectors detectorName (registrations pr (geometryRequests p) cs [])"
    using d m by (simp add: getDetectorGeometry_def)
  have f: "scanDetectors detectorName (registrations pr (geometryRequests p) cs []) =
             Inr (case filter (named detectorName) (registrations pr (geometryRequests p) cs []) of
                    [] \<Rightarrow> None | s # rest \<Rightarrow> s)"
    using scanDetectors_filter [of "registrations pr (geometryRequests p) cs []" detectorName] nn m
    by simp
  have h: "\<And>s rest. filter (named detectorName) (registrations pr (geometryRequests p) cs []) = s # rest \<Longrightarrow> s \<noteq> None"
  proof -
    fix s rest
    assume "filter (named detectorName) (registrations pr (geometryRequests p) cs []) = s # rest"
    then have "s \<in> set (filter (named detectorName) (registrations pr (geometryRequests p) cs []))" by simp
    then have "named detectorName s" by simp
    then show "s \<noteq> None" by (cases s) simp_all
  qed
  show ?thesis
    using g f h by (auto simp: registrations_destroyed)
qed

theorem getDetectorGeometry_first_registration_witness:
  "deref demo 0 = Some demoView \<and> mDetectors demoView = [] \<and>
   (\<exists>p'. performAll False stubProvider 0 0
            [Draw ''TPC'' True False False, Draw ''ITS'' True True True, Draw ''TPC'' False True False]
            demo = Inr p' \<and>
      registrations stubProvider (geometryRequests demo)
        [Draw ''TPC'' True False False, Draw ''ITS'' True True True, Draw ''TPC'' False True False] [] =
        [Some tpc, Some its, Some tpc2] \<and>
      getDetectorGeometry 0 ''TPC'' p' = Inr (Some tpc) \<and>
      getDetectorGeometry 0 ''ITS'' p' = Inr (Some its) \<and>
      getDetectorGeometry 0 ''EMC'' p' = Inr None)"
proof -
  let ?cs = "[Draw ''TPC'' True False False, Draw ''ITS'' True True True, Draw ''TPC'' False True False]"
  have "allReturning stubProvider (geometryRequests demo) ?cs"
    by (simp add: stubProvider_def demo_requests)
  from performAll_returns [OF demo_deref _ this, of False 0] obtain p' where
    r: "performAll False stubProvider 0 0 ?cs demo = Inr p'"
    by (auto simp: demo_mDetectors)
  have regs: "registrations stubProvider (geometryRequests demo) ?cs [] = [Some tpc, Some its, Some tpc2]"
    by (simp add: stubProvider_def demo_requests tpc_def its_def tpc2_def)
  have "getDetectorGeometry 0 ''TPC'' p' = Inr (Some tpc)"
    using getDetectorGeometry_first_registration [OF demo_deref demo_mDetectors r, of "''TPC''"]
    by (simp add: stubProvider_def demo_requests tpc_def its_def tpc2_def)
  moreover have "getDetectorGeometry 0 ''ITS'' p' = Inr (Some its)"
    using getDetectorGeometry_first_registration [OF demo_deref demo_mDetectors r, of "''ITS''"]
    by (simp add: stubProvider_def demo_requests tpc_def its_def tpc2_def)
  moreover have "getDetectorGeometry 0 ''EMC'' p' = Inr None"
    using getDetectorGeometry_first_registration [OF demo_deref demo_mDetectors r, of "''EMC''"]
    by (simp add: stubProvider_def demo_requests tpc_def its_def tpc2_def)
  ultimately show ?thesis
    using r regs demo_deref demo_mDetectors by blast
qed

text \<open>
  C4. On a valid coordinator \<open>destroyAllGeometries\<close> always returns, and in the state it
  returns the lookup list is empty and the 3D, R-Phi and ZY geometry scenes have no
  children. The function has no exit between the clearing of the scenes and the clearing of
  the list, so a caller sees the state before the call or a state with all four cleared.
\<close>

theorem destroyAllGeometries_clears_all:
  assumes "deref p this = Some mv"
  shows "\<exists>p' mv'. destroyAllGeometries this p = Inr p' \<and>
           deref p' this = Some mv' \<and> mDetectors mv' = [] \<and> mScenes mv' = mScenes mv \<and>
           sceneChildren mv' p' Scene3dGeom = [] \<and>
           sceneChildren mv' p' SceneRphiGeom = [] \<and>
           sceneChildren mv' p' SceneZYGeom = []"
  using destroyAllGeometries_result [OF assms]
  by (auto simp: sceneChildren_def getScene_def)

theorem destroyAllGeometries_clears_all_witness:
  "\<exists>p1 mv1. performAll False stubProvider 0 0 [Draw ''TPC'' True True True] demo = Inr p1 \<and>
      deref p1 0 = Some mv1 \<and> mDetectors mv1 = [Some tpc] \<and>
      (\<exists>p' mv'. destroyAllGeometries 0 p1 = Inr p' \<and>
         deref p' 0 = Some mv' \<and> mDetectors mv' = [] \<and>
         sceneChildren mv' p' Scene3dGeom = [] \<and>
         sceneChildren mv' p' SceneRphiGeom = [] \<and>
         sceneChildren mv' p' SceneZYGeom = [])"
proof -
  let ?cs = "[Draw ''TPC'' True True True]"
  have "allReturning stubProvider (geometryRequests demo) ?cs"
    by (simp add: stubProvider_def demo_requests)
  from performAll_returns [OF demo_deref _ this, of False 0] obtain p1 where
    r: "performAll False stubProvider 0 0 ?cs demo = Inr p1"
    by (auto simp: demo_mDetectors)
  from performAll_effect [OF r demo_deref] obtain mv1 where
    d: "deref p1 0 = Some mv1" and m: "mDetectors mv1 = [Some tpc]"
    by (auto simp: demo_mDetectors stubProvider_def demo_requests tpc_def)
  from destroyAllGeometries_clears_all [OF d] r d m show ?thesis by blast
qed

text \<open>
  C5. Along a run of calls without \<open>destroyAllGeometries\<close> that returns, the lookup list
  grows by one entry for each \<open>drawGeometryForDetector\<close>, whatever its three flags and
  whatever other calls lie in between: started on an empty list, the run leaves as many
  entries as it has \<open>drawGeometryForDetector\<close> calls.
\<close>

theorem lookup_list_counts_draws:
  assumes "deref p this = Some mv" "performAll ax pr n this cs p = Inr p'"
    and "DestroyGeometries \<notin> set cs"
  shows "\<exists>mv'. deref p' this = Some mv' \<and>
           length (mDetectors mv') = length (mDetectors mv) + length (filter isDraw cs) \<and>
           (mDetectors mv = [] \<longrightarrow> length (mDetectors mv') = length (filter isDraw cs))"
  using performAll_effect [OF assms(2) assms(1)]
    registrations_length [OF assms(3), of pr "geometryRequests p" "mDetectors mv"]
  by auto

theorem lookup_list_counts_draws_witness:
  "\<exists>p' mv'. performAll False stubProvider 0 0
       [Draw ''TPC'' True True True, Draw ''TPC'' False False False, Redraw, Draw ''ITS'' False True False]
       demo = Inr p' \<and>
     deref demo 0 = Some demoView \<and> mDetectors demoView = [] \<and>
     deref p' 0 = Some mv' \<and> length (mDetectors mv') = 3"
proof -
  let ?cs = "[Draw ''TPC'' True True True, Draw ''TPC'' False False False, Redraw, Draw ''ITS'' False True False]"
  have "allReturning stubProvider (geometryRequests demo) ?cs"
    by (simp add: stubProvider_def demo_requests)
  from performAll_returns [OF demo_deref _ this, of False 0] obtain p' where
    r: "performAll False stubProvider 0 0 ?cs demo = Inr p'"
    by (auto simp: demo_mDetectors)
  have nd: "DestroyGeometries \<notin> set ?cs" by simp
  from lookup_list_counts_draws [OF demo_deref r nd] obtain mv' where
    "deref p' 0 = Some mv'" "length (mDetectors mv') = 3"
    by (auto simp: demo_mDetectors)
  with r demo_deref demo_mDetectors show ?thesis by blast
qed

text \<open>
  C6. On a wired coordinator with a current event, \<open>registerElements\<close> with two arrays of
  \<open>K\<close> non-null elements each returns; it has appended exactly the \<open>K\<close> default
  elements, in order, to the current event, their \<open>K\<close> replicas made by the ZY projection
  to the ZY event scene, and the \<open>K\<close> replicas of the phi elements made by the R-Phi
  projection to the R-Phi event scene; every other scene is as before.
\<close>

theorem registerElements_default_to_ZY_phi_to_RPhi:
  assumes "deref p this = Some mv" "wired mv (gEve p)" "fCurrentEvent (gEve p) = Some cur"
    and "length ds = K" "length ps = K"
  shows "\<exists>p'. registerElements K this (map Some ds) (map Some ps) p = Inr p' \<and>
           fCurrentEvent (gEve p') = Some (cur @ map Element ds) \<and>
           sceneChildren mv p' SceneZYEvent =
             sceneChildren mv p SceneZYEvent @
               map (Projected kPT_ZY (projectionDepth mv p ProjectionZY)) ds \<and>
           sceneChildren mv p' SceneRphiEvent =
             sceneChildren mv p SceneRphiEvent @
               map (Projected kPT_RPhi (projectionDepth mv p ProjectionRphi)) ps \<and>
           length (sceneChildren mv p' SceneZYEvent) = length (sceneChildren mv p SceneZYEvent) + K \<and>
           length (sceneChildren mv p' SceneRphiEvent) = length (sceneChildren mv p SceneRphiEvent) + K \<and>
           (\<forall>scene. scene \<noteq> SceneZYEvent \<longrightarrow> scene \<noteq> SceneRphiEvent \<longrightarrow>
                    sceneChildren mv p' scene = sceneChildren mv p scene)"
proof -
  have "K \<le> length ds" "K \<le> length ps" using assms(4,5) by simp_all
  from registerElements_result [OF assms(1,2,3) this] assms(4,5) show ?thesis
    by auto
qed

theorem registerElements_default_to_ZY_phi_to_RPhi_witness:
  "deref demo 0 = Some demoView \<and> wired demoView (gEve demo) \<and>
   fCurrentEvent (gEve demo) = Some [] \<and> length [tpc, its] = 2 \<and> length [tpc2, its] = 2 \<and>
   (\<exists>p'. registerElements 2 0 [Some tpc, Some its] [Some tpc2, Some its] demo = Inr p' \<and>
      fCurrentEvent (gEve p') = Some [Element tpc, Element its] \<and>
      sceneChildren demoView p' SceneZYEvent =
        sceneChildren demoView demo SceneZYEvent @ [Projected kPT_ZY 0 tpc, Projected kPT_ZY 0 its] \<and>
      sceneChildren demoView p' SceneRphiEvent =
        sceneChildren demoView demo SceneRphiEvent @ [Projected kPT_RPhi 0 tpc2, Projected kPT_RPhi 0 its])"
proof -
  have l: "length [tpc, its] = 2" "length [tpc2, its] = 2" by simp_all
  from registerElements_default_to_ZY_phi_to_RPhi
         [OF demo_deref demo_wired demo_current_event l]
  show ?thesis
    by (auto simp: demo_deref demo_wired demo_current_event demo_depths)
qed

text \<open>
  C7. A registration with \<open>intoThreeD=true\<close>, \<open>intoRPhi=false\<close> and \<open>intoZY=false\<close>
  appends the shape to the 3D geometry scene and leaves every other scene, the R-Phi and ZY
  geometry scenes among them, as it was. Through \<open>registerGeometry\<close> the coordinator
  objects are unchanged; through \<open>drawGeometryForDetector\<close> the shape is also appended to
  the lookup list.
\<close>

theorem registerGeometry_threeD_only_frame:
  assumes "deref p this = Some mv" "wired mv (gEve p)"
  shows "(\<exists>p'. registerGeometry this (Some g) True False False p = Inr p' \<and>
            objects p' = objects p \<and>
            sceneChildren mv p' SceneRphiGeom = sceneChildren mv p SceneRphiGeom \<and>
            sceneChildren mv p' SceneZYGeom = sceneChildren mv p SceneZYGeom \<and>
            sceneChildren mv p' Scene3dGeom = sceneChildren mv p Scene3dGeom @ [Element g] \<and>
            (\<forall>scene. scene \<noteq> Scene3dGeom \<longrightarrow> sceneChildren mv p' scene = sceneChildren mv p scene)) \<and>
         (provider (geometryRequests p) detectorName = Some g \<longrightarrow>
            (\<exists>p'. drawGeometryForDetector provider this detectorName True False False p = Inr p' \<and>
               deref p' this = Some (mv\<lparr>mDetectors := mDetectors mv @ [Some g]\<rparr>) \<and>
               sceneChildren mv p' SceneRphiGeom = sceneChildren mv p SceneRphiGeom \<and>
               sceneChildren mv p' SceneZYGeom = sceneChildren mv p SceneZYGeom \<and>
               sceneChildren mv p' Scene3dGeom = sceneChildren mv p Scene3dGeom @ [Element g] \<and>
               (\<forall>scene. scene \<noteq> Scene3dGeom \<longrightarrow> sceneChildren mv p' scene = sceneChildren mv p scene)))"
proof -
  have a: "\<exists>p'. registerGeometry this (Some g) True False False p = Inr p' \<and>
            objects p' = objects p \<and>
            sceneChildren mv p' SceneRphiGeom = sceneChildren mv p SceneRphiGeom \<and>
            sceneChildren mv p' SceneZYGeom = sceneChildren mv p SceneZYGeom \<and>
            sceneChildren mv p' Scene3dGeom = sceneChildren mv p Scene3dGeom @ [Element g] \<and>
            (\<forall>scene. scene \<noteq> Scene3dGeom \<longrightarrow> sceneChildren mv p' scene = sceneChildren mv p scene)"
    using registerGeometry_threeD_only [OF assms, of g] by auto
  have b: "provider (geometryRequests p) detectorName = Some g \<Longrightarrow>
            \<exists>p'. drawGeometryForDetector provider this detectorName True False False p = Inr p' \<and>
               deref p' this = Some (mv\<lparr>mDetectors := mDetectors mv @ [Some g]\<rparr>) \<and>
               sceneChildren mv p' SceneRphiGeom = sceneChildren mv p SceneRphiGeom \<and>
               sceneChildren mv p' SceneZYGeom = sceneChildren mv p SceneZYGeom \<and>
               sceneChildren mv p' Scene3dGeom = sceneChildren mv p Scene3dGeom @ [Element g] \<and>
               (\<forall>scene. scene \<noteq> Scene3dGeom \<longrightarrow> sceneChildren mv p' scene = sceneChildren mv p scene)"
    using drawGeometryForDetector_threeD_only
            [where provider = provider and detectorName = detectorName, OF assms]
    by auto
  from a b show ?thesis by blast
qed

theorem registerGeometry_threeD_only_frame_witness:
  "deref demo 0 = Some demoView \<and> wired demoView (gEve demo) \<and>
   stubProvider (geometryRequests demo) ''TPC'' = Some tpc \<and>
   (\<exists>p'. drawGeometryForDetector stubProvider 0 ''TPC'' True False False demo = Inr p' \<and>
      deref p' 0 = Some (demoView\<lparr>mDetectors := mDetectors demoView @ [Some tpc]\<rparr>) \<and>
      sceneChildren demoView p' SceneRphiGeom = sceneChildren demoView demo SceneRphiGeom \<and>
      sceneChildren demoView p' SceneZYGeom = sceneChildren demoView demo SceneZYGeom \<and>
      sceneChildren demoView p' Scene3dGeom = sceneChildren demoView demo Scene3dGeom @ [Element tpc])"
proof -
  have h: "stubProvider (geometryRequests demo) ''TPC'' = Some tpc"
    by (simp add: stubProvider_def demo_requests tpc_def)
  from registerGeometry_threeD_only_frame [OF demo_deref demo_wired, of tpc stubProvider "''TPC''"] h
  show ?thesis by (auto simp: demo_deref demo_wired)
qed

text \<open>
  C8. Whenever \<open>registerElements\<close> or \<open>registerElement\<close> returns, every projection
  manager has the depth it had at the call. On a wired coordinator with a current event and
  non-null elements both return, and each replica they import carries the depth its
  projection had at the call.
\<close>

theorem event_registration_keeps_depth:
  "(registerElements n this els phis p = Inr p1 \<longrightarrow>
      (\<forall>view projection. projectionDepth view p1 projection = projectionDepth view p projection)) \<and>
   (registerElement this event p = Inr p2 \<longrightarrow>
      (\<forall>view projection. projectionDepth view p2 projection = projectionDepth view p projection)) \<and>
   (deref p this = Some mv \<and> wired mv (gEve p) \<and> fCurrentEvent (gEve p) = Some cur \<longrightarrow>
      (\<exists>q. registerElement this (Some ev) p = Inr q \<and>
         sceneChildren mv q SceneRphiEvent =
           sceneChildren mv p SceneRphiEvent @
             [Projected kPT_RPhi (projectionDepth mv p ProjectionRphi) ev] \<and>
         sceneChildren mv q SceneZYEvent =
           sceneChildren mv p SceneZYEvent @
             [Projected kPT_ZY (projectionDepth mv p ProjectionZY) ev]) \<and>
      (n \<le> length ds \<and> n \<le> length ps \<longrightarrow>
         (\<exists>q. registerElements n this (map Some ds) (map Some ps) p = Inr q \<and>
            sceneChildren mv q SceneRphiEvent =
              sceneChildren mv p SceneRphiEvent @
                map (Projected kPT_RPhi (projectionDepth mv p ProjectionRphi)) (take n ps) \<and>
            sceneChildren mv q SceneZYEvent =
              sceneChildren mv p SceneZYEvent @
                map (Projected kPT_ZY (projectionDepth mv p ProjectionZY)) (take n ds))))"
proof -
  have a: "registerElements n this els phis p = Inr p1 \<Longrightarrow>
             projectionDepth view p1 projection = projectionDepth view p projection"
    for view projection
    using registerElements_Inr [of n this els phis p p1] by (simp add: projectionDepth_def)
  have b: "registerElement this event p = Inr p2 \<Longrightarrow>
             projectionDepth view p2 projection = projectionDepth view p projection"
    for view projection
    using registerElement_Inr [of this event p p2] by (simp add: projectionDepth_def)
  have c: "deref p this = Some mv \<Longrightarrow> wired mv (gEve p) \<Longrightarrow> fCurrentEvent (gEve p) = Some cur \<Longrightarrow>
      \<exists>q. registerElement this (Some ev) p = Inr q \<and>
         sceneChildren mv q SceneRphiEvent =
           sceneChildren mv p SceneRphiEvent @
             [Projected kPT_RPhi (projectionDepth mv p ProjectionRphi) ev] \<and>
         sceneChildren mv q SceneZYEvent =
           sceneChildren mv p SceneZYEvent @
             [Projected kPT_ZY (projectionDepth mv p ProjectionZY) ev]"
    using registerElement_result [of p this mv cur ev] by blast
  have d: "deref p this = Some mv \<Longrightarrow> wired mv (gEve p) \<Longrightarrow> fCurrentEvent (gEve p) = Some cur \<Longrightarrow>
      n \<le> length ds \<Longrightarrow> n \<le> length ps \<Longrightarrow>
      \<exists>q. registerElements n this (map Some ds) (map Some ps) p = Inr q \<and>
            sceneChildren mv q SceneRphiEvent =
              sceneChildren mv p SceneRphiEvent @
                map (Projected kPT_RPhi (projectionDepth mv p ProjectionRphi)) (take n ps) \<and>
            sceneChildren mv q SceneZYEvent =
              sceneChildren mv p SceneZYEvent @
                map (Projected kPT_ZY (projectionDepth mv p ProjectionZY)) (take n ds)"
    using registerElements_result [of p this mv cur n ds ps] by blast
  from a b c d show ?thesis by blast
qed

theorem event_registration_keeps_depth_witness:
  "deref demo5 0 = Some demoView \<and> wired demoView (gEve demo5) \<and>
   fCurrentEvent (gEve demo5) = Some [] \<and>
   projectionDepth demoView demo5 ProjectionRphi = 5 \<and>
   (\<exists>q. registerElement 0 (Some tpc) demo5 = Inr q \<and>
      projectionDepth demoView q ProjectionRphi = 5 \<and>
      sceneChildren demoView q SceneRphiEvent =
        sceneChildren demoView demo5 SceneRphiEvent @ [Projected kPT_RPhi 5 tpc]) \<and>
   (\<exists>q. registerElements 2 0 [Some tpc, Some its] [Some tpc2, Some its] demo5 = Inr q \<and>
      projectionDepth demoView q ProjectionRphi = 5 \<and>
      sceneChildren demoView q SceneRphiEvent =
        sceneChildren demoView demo5 SceneRphiEvent @
          [Projected kPT_RPhi 5 tpc2, Projected kPT_RPhi 5 its])"
proof -
  have ce: "fCurrentEvent (gEve demo5) = Some []"
    by (simp add: demo5_def engine_simps demo_current_event)
  have l: "(2::nat) \<le> length [tpc, its] \<and> 2 \<le> length [tpc2, its]" by simp
  have h: "deref demo5 0 = Some demoView \<and> wired demoView (gEve demo5) \<and>
           fCurrentEvent (gEve demo5) = Some []"
    using demo5_deref demo5_wired ce by simp
  from event_registration_keeps_depth
         [of 2 0 "[]" "[]" demo5 demo5 None demo5 demoView "[]" tpc "[tpc, its]" "[tpc2, its]"] h l
  obtain q1 q2 where
    r1: "registerElement 0 (Some tpc) demo5 = Inr q1"
    and c1: "sceneChildren demoView q1 SceneRphiEvent =
              sceneChildren demoView demo5 SceneRphiEvent @ [Projected kPT_RPhi 5 tpc]"
    and r2: "registerElements 2 0 [Some tpc, Some its] [Some tpc2, Some its] demo5 = Inr q2"
    and c2: "sceneChildren demoView q2 SceneRphiEvent =
              sceneChildren demoView demo5 SceneRphiEvent @
                [Projected kPT_RPhi 5 tpc2, Projected kPT_RPhi 5 its]"
    by (auto simp: demo5_depth)
  from event_registration_keeps_depth
         [of 2 0 "[Some tpc, Some its]" "[Some tpc2, Some its]" demo5 q2 "Some tpc" q1] r1 r2
  have "projectionDepth demoView q1 ProjectionRphi = 5" "projectionDepth demoView q2 ProjectionRphi = 5"
    by (simp_all add: demo5_depth)
  with r1 c1 r2 c2 h show ?thesis by (simp add: demo5_depth)
qed

text \<open>
  C9. \<open>getInstance\<close> never returns null and returns what \<open>sInstance\<close> holds afterwards.
  When \<open>sInstance\<close> is null, as it is when the process starts, the call constructs exactly
  one coordinator and returns its address. A later \<open>getInstance\<close> returns the same
  address and changes nothing, also after any run of calls of the other member functions
  that returns: none of them writes \<open>sInstance\<close> or creates a coordinator.
\<close>

theorem getInstance_singleton:
  "fst (getInstance ax p) \<noteq> None \<and>
   sInstance (snd (getInstance ax p)) = fst (getInstance ax p) \<and>
   (sInstance p = None \<longrightarrow>
      fst (getInstance ax p) = Some (length (objects p)) \<and>
      length (objects (snd (getInstance ax p))) = Suc (length (objects p))) \<and>
   length (objects (snd (getInstance ax boot))) = 1 \<and>
   getInstance ax' (snd (getInstance ax p)) = getInstance ax p \<and>
   (\<forall>cs q. performAll ax' pr n this cs (snd (getInstance ax p)) = Inr q \<longrightarrow>
      sInstance q = fst (getInstance ax p) \<and>
      length (objects q) = length (objects (snd (getInstance ax p))) \<and>
      getInstance ax' q = (fst (getInstance ax p), q))"
proof -
  obtain a where a: "fst (getInstance ax p) = Some a"
    using getInstance_not_null [of ax p] by auto
  then have s: "sInstance (snd (getInstance ax p)) = Some a"
    by (simp add: getInstance_sInstance)
  have again: "getInstance ax' (snd (getInstance ax p)) = getInstance ax p"
    using getInstance_again [OF s, of ax'] a by (simp add: prod_eq_iff)
  have first: "sInstance p = None \<Longrightarrow>
      fst (getInstance ax p) = Some (length (objects p)) \<and>
      length (objects (snd (getInstance ax p))) = Suc (length (objects p))"
    by (simp add: getInstance_first ctor_frame)
  have boot1: "length (objects (snd (getInstance ax boot))) = 1"
    by (simp add: getInstance_first ctor_frame boot_def)
  have run: "performAll ax' pr n this cs (snd (getInstance ax p)) = Inr q \<Longrightarrow>
      sInstance q = fst (getInstance ax p) \<and>
      length (objects q) = length (objects (snd (getInstance ax p))) \<and>
      getInstance ax' q = (fst (getInstance ax p), q)" for cs q
    using performAll_singleton [of ax' pr n this cs "snd (getInstance ax p)" q a] s a
    by (simp add: getInstance_again)
  from a s again first boot1 run show ?thesis by simp
qed

theorem getInstance_singleton_witness:
  "sInstance boot = None \<and> fst (getInstance False boot) = Some 0 \<and>
   length (objects (snd (getInstance False boot))) = 1 \<and>
   (\<exists>q. performAll True stubProvider 0 0
           [Draw ''TPC'' True True True, Instance, Redraw, DestroyGeometries, Instance]
           (snd (getInstance False boot)) = Inr q \<and>
      sInstance q = Some 0 \<and> length (objects q) = 1 \<and> getInstance True q = (Some 0, q))"
proof -
  let ?cs = "[Draw ''TPC'' True True True, Instance, Redraw, DestroyGeometries, Instance]"
  have b: "sInstance boot = None" "length (objects boot) = 0" by (simp_all add: boot_def)
  have "allReturning stubProvider (geometryRequests demo) ?cs"
    by (simp add: stubProvider_def demo_requests)
  from performAll_returns [OF demo_deref _ this, of True 0] obtain q where
    r: "performAll True stubProvider 0 0 ?cs (snd (getInstance False boot)) = Inr q"
    by (auto simp: demo_mDetectors demo_def)
  note t = getInstance_singleton [of False boot True stubProvider 0 0]
  from t b have f: "fst (getInstance False boot) = Some 0"
    "length (objects (snd (getInstance False boot))) = 1"
    by simp_all
  from t r have "sInstance q = fst (getInstance False boot) \<and>
      length (objects q) = length (objects (snd (getInstance False boot))) \<and>
      getInstance True q = (fst (getInstance False boot), q)"
    by blast
  with f have "sInstance q = Some 0 \<and> length (objects q) = 1 \<and> getInstance True q = (Some 0, q)"
    by simp
  with r b f show ?thesis by blast
qed

text \<open>
  C10. On a wired coordinator \<open>destroyAllEvents\<close> always returns, with the R-Phi and ZY
  event scenes empty, whether or not there is a current event: a current event is emptied,
  an absent one stays absent. The coordinator objects with their lookup lists, the three
  geometry scenes, the 3D event scene and every projection manager are as they were.
\<close>

theorem destroyAllEvents_clears_projected_events:
  assumes "deref p this = Some mv" "wired mv (gEve p)"
  shows "\<exists>p'. destroyAllEvents this p = Inr p' \<and>
           sceneChildren mv p' SceneRphiEvent = [] \<and>
           sceneChildren mv p' SceneZYEvent = [] \<and>
           fCurrentEvent (gEve p') = map_option (\<lambda>cs. []) (fCurrentEvent (gEve p)) \<and>
           objects p' = objects p \<and> deref p' this = Some mv \<and>
           sceneChildren mv p' Scene3dGeom = sceneChildren mv p Scene3dGeom \<and>
           sceneChildren mv p' SceneRphiGeom = sceneChildren mv p SceneRphiGeom \<and>
           sceneChildren mv p' SceneZYGeom = sceneChildren mv p SceneZYGeom \<and>
           sceneChildren mv p' Scene3dEvent = sceneChildren mv p Scene3dEvent \<and>
           (\<forall>projection. projectionDepth mv p' projection = projectionDepth mv p projection)"
proof -
  from destroyAllEvents_result [OF assms(1)] obtain p' where
    r: "destroyAllEvents this p = Inr p'"
    and o: "objects p' = objects p"
    and pr: "fProjections (gEve p') = fProjections (gEve p)"
    and ce: "fCurrentEvent (gEve p') = map_option (\<lambda>cs. []) (fCurrentEvent (gEve p))"
    and e1: "sceneChildren mv p' SceneRphiEvent = []"
    and e2: "sceneChildren mv p' SceneZYEvent = []"
    and f: "\<forall>scene. mScenes mv scene \<noteq> mScenes mv SceneRphiEvent \<longrightarrow>
                    mScenes mv scene \<noteq> mScenes mv SceneZYEvent \<longrightarrow>
                    sceneChildren mv p' scene = sceneChildren mv p scene"
    by blast
  from o assms(1) have d: "deref p' this = Some mv" by (rule deref_same)
  have g: "sceneChildren mv p' Scene3dGeom = sceneChildren mv p Scene3dGeom"
    "sceneChildren mv p' SceneRphiGeom = sceneChildren mv p SceneRphiGeom"
    "sceneChildren mv p' SceneZYGeom = sceneChildren mv p SceneZYGeom"
    "sceneChildren mv p' Scene3dEvent = sceneChildren mv p Scene3dEvent"
    using f by (simp_all add: wired_scenes [OF assms(2)])
  have "\<forall>projection. projectionDepth mv p' projection = projectionDepth mv p projection"
    using pr by (simp add: projectionDepth_def)
  with r o ce e1 e2 d g show ?thesis by simp
qed

theorem destroyAllEvents_clears_projected_events_witness:
  "deref demoNoEvent 0 = Some demoView \<and> wired demoView (gEve demoNoEvent) \<and>
   fCurrentEvent (gEve demoNoEvent) = None \<and>
   (\<exists>p'. destroyAllEvents 0 demoNoEvent = Inr p' \<and>
      sceneChildren demoView p' SceneRphiEvent = [] \<and>
      sceneChildren demoView p' SceneZYEvent = [] \<and>
      fCurrentEvent (gEve p') = None \<and>
      objects p' = objects demoNoEvent)"
  using destroyAllEvents_clears_projected_events [OF demoNoEvent_deref demoNoEvent_wired]
  by (auto simp: demoNoEvent_deref demoNoEvent_wired demoNoEvent_current_event)

end
